theory Spec2Isabelle
  imports Main "HOL-Library.Word"
begin

section \<open>Go types as seen through reflection\<close>

text \<open>
  The mapper inspects its destination through \<^verbatim>\<open>reflect.Type\<close>.  A type is modelled as a
  finite tree: the scalar kinds, pointers, slices, arrays, maps, channels, functions,
  interfaces and structs.  A struct carries its name and its fields in declaration order;
  a field carries its declared name, the value of its \<^verbatim>\<open>db_column\<close> tag when the tag is
  present, and its type.  Self-referential struct types are not finite trees and are
  outside this model (the Go code does not terminate on them).  A defined type that is
  not a struct is identified with its underlying type, and whether a field is exported
  is not recorded.
\<close>

datatype basic =
    KBool
  | KInt | KInt8 | KInt16 | KInt32 | KInt64
  | KUint | KUint8 | KUint16 | KUint32 | KUint64 | KUintptr
  | KFloat32 | KFloat64
  | KComplex64 | KComplex128
  | KString
  | KUnsafePointer

datatype gotype =
    TBasic basic
  | TPtr gotype
  | TSlice gotype
  | TArray nat gotype
  | TMap gotype gotype
  | TChan gotype
  | TFunc
  | TInterface
  | TStruct string "field list"
and field = Field (fieldName: string) (fieldTag: "string option") (fieldType: gotype)

text \<open>
  Everything a call can go wrong with.  \<open>Diverges\<close> stands for a Go loop that never
  exits; \<open>Panic\<close> for a run-time panic raised by \<^verbatim>\<open>reflect\<close>.
\<close>

datatype error =
    PointerToSliceExpected gotype
  | UnsupportedType gotype
  | NotAStruct gotype
  | NoMappingForColumn string
  | ColumnTypeMismatch string gotype gotype
  | HolderNotImplemented gotype
  | ValueNotAStruct
  | RowsError string

datatype failure = Err error | Panic string | Diverges

section \<open>Shape classification\<close>

text \<open>
  \<^verbatim>\<open>isSmallestStructDecomposition\<close>: a type is an indivisible leaf when it implements
  \<^verbatim>\<open>sql.Scanner\<close> or is in the registry.  Which types implement the interface is a fact
  about their method sets, taken as a parameter; the registry is the process-wide set
  (time.Time and time.Location from the start, more through
  \<^verbatim>\<open>SmallestStructDecomposition\<close>).  The environment also holds the two strictness
  flags and the growth policy of the runtime's \<^verbatim>\<open>append\<close> (see below).
\<close>

record env =
  implementsScanner :: "gotype \<Rightarrow> bool"
  smallestStructDecompositions :: "gotype list"
  columnTypeCheck :: bool
  columnAmountCheck :: bool
  growCap :: "nat \<Rightarrow> nat"

definition isSmallestStructDecomposition :: "env \<Rightarrow> gotype \<Rightarrow> bool" where
  "isSmallestStructDecomposition e t =
     (if implementsScanner e t then True
      else t \<in> set (smallestStructDecompositions e))"

definition SmallestStructDecomposition :: "gotype \<Rightarrow> env \<Rightarrow> env" where
  "SmallestStructDecomposition t e =
     e\<lparr>smallestStructDecompositions := t # smallestStructDecompositions e\<rparr>"

definition StrictColumnTypeCheck :: "bool \<Rightarrow> env \<Rightarrow> env" where
  "StrictColumnTypeCheck strict e = e\<lparr>columnTypeCheck := strict\<rparr>"

definition StrictColumnAmountCheck :: "bool \<Rightarrow> env \<Rightarrow> env" where
  "StrictColumnAmountCheck strict e = e\<lparr>columnAmountCheck := strict\<rparr>"

fun elementType_loop :: "gotype \<Rightarrow> gotype \<Rightarrow> error + gotype" where
  "elementType_loop dstType (TSlice t) =
     (if t = TBasic KUint8 then Inr (TSlice t) else elementType_loop dstType t)"
| "elementType_loop dstType (TMap k v) = Inl (UnsupportedType dstType)"
| "elementType_loop dstType (TChan t) = Inl (UnsupportedType dstType)"
| "elementType_loop dstType TFunc = Inl (UnsupportedType dstType)"
| "elementType_loop dstType TInterface = Inl (UnsupportedType dstType)"
| "elementType_loop dstType (TBasic KUnsafePointer) = Inl (UnsupportedType dstType)"
| "elementType_loop dstType (TArray n t) = Inl (UnsupportedType dstType)"
| "elementType_loop dstType t = Inr t"

definition elementType :: "gotype \<Rightarrow> error + gotype" where
  "elementType dstType = elementType_loop dstType dstType"

fun isSingleBasicType :: "env \<Rightarrow> gotype \<Rightarrow> bool" where
  "isSingleBasicType e (TPtr t) = isSingleBasicType e t"
| "isSingleBasicType e (TBasic k) =
     (k \<in> {KInt, KInt8, KInt16, KInt32, KInt64,
            KUint, KUint8, KUint16, KUint32, KUint64,
            KString, KFloat32, KFloat64})"
| "isSingleBasicType e (TSlice t) = (t = TBasic KUint8)"
| "isSingleBasicType e (TStruct n fs) = isSmallestStructDecomposition e (TStruct n fs)"
| "isSingleBasicType e t = False"

section \<open>Accessor resolution\<close>

text \<open>
  \<^verbatim>\<open>strings.ToLower\<close>, on the ASCII letters (a \<open>char\<close> is a byte).  The library
  function also lower-cases the letters beyond ASCII; here their bytes are left as they
  are, so the model agrees with the library on ASCII names only.
\<close>

definition toLowerChar :: "char \<Rightarrow> char" where
  "toLowerChar c =
     (let n = (of_char c :: nat) in if 65 \<le> n \<and> n \<le> 90 then char_of (n + 32) else c)"

definition ToLower :: "string \<Rightarrow> string" where
  "ToLower s = map toLowerChar s"

text \<open>
  A Go slice of ints is a window on a backing array: the array, the length and the
  capacity.  \<^verbatim>\<open>append(s, x)\<close> writes \<open>x\<close> into the array of \<open>s\<close> when the length is
  below the capacity, so that every slice on that array sees it; otherwise it copies the
  elements into a new, larger array.  The heap is the list of the backing arrays, a
  slice names its array by position.  How far the runtime grows a full slice depends on
  the platform; \<open>growCap\<close> in the environment gives the new capacity from the old.
\<close>

record goslice =
  array :: nat
  len :: nat
  cap :: nat

type_synonym heap = "nat list list"

definition nilSlice :: goslice where
  "nilSlice = \<lparr>array = 0, len = 0, cap = 0\<rparr>"

definition readSlice :: "heap \<Rightarrow> goslice \<Rightarrow> nat list" where
  "readSlice h s = (if len s = 0 then [] else take (len s) (h ! array s))"

definition appendInt :: "env \<Rightarrow> heap \<Rightarrow> goslice \<Rightarrow> nat \<Rightarrow> goslice \<times> heap" where
  "appendInt e h s x =
     (if len s < cap s
      then (s\<lparr>len := len s + 1\<rparr>, h[array s := (h ! array s)[len s := x]])
      else
        let newcap = max (len s + 1) (growCap e (cap s)) in
        (\<lparr>array = length h, len = len s + 1, cap = newcap\<rparr>,
         h @ [readSlice h s @ [x] @ replicate (newcap - (len s + 1)) 0]))"

record fieldAccessor =
  fieldType_of :: gotype
  fieldIndex :: goslice

text \<open>
  \<^verbatim>\<open>createFieldsAccessorsRecursively\<close>.  The outer \<^verbatim>\<open>for\<close> has a \<^verbatim>\<open>switch\<close> with two cases
  only: a pointer is unwrapped, a struct has its fields walked and the function returns.
  On any other kind no case matches and the loop repeats on the same type for ever, so the
  error after the loop is never reached.  The table is passed in and returned, together
  with the heap that holds the index paths.  Each field calls \<^verbatim>\<open>append(folding, i)\<close>
  once for the recursive call, when there is one, and once for its own accessor.
\<close>

text \<open>The test on a field's kind: a struct, or a pointer whose element is a struct.\<close>

fun isStructOrPtrToStruct :: "gotype \<Rightarrow> bool" where
  "isStructOrPtrToStruct (TStruct n fs) = True"
| "isStructOrPtrToStruct (TPtr (TStruct n fs)) = True"
| "isStructOrPtrToStruct t = False"

fun createFieldsAccessorsRecursively ::
      "env \<Rightarrow> (string \<rightharpoonup> fieldAccessor) \<times> heap \<Rightarrow> goslice \<Rightarrow> gotype
         \<Rightarrow> failure + ((string \<rightharpoonup> fieldAccessor) \<times> heap)"
  and accessorFields ::
      "env \<Rightarrow> (string \<rightharpoonup> fieldAccessor) \<times> heap \<Rightarrow> goslice \<Rightarrow> nat \<Rightarrow> field list
         \<Rightarrow> failure + ((string \<rightharpoonup> fieldAccessor) \<times> heap)"
where
  "createFieldsAccessorsRecursively e mh foldPath (TPtr t) =
     createFieldsAccessorsRecursively e mh foldPath t"
| "createFieldsAccessorsRecursively e mh foldPath (TStruct n fs) =
     accessorFields e mh foldPath 0 fs"
| "createFieldsAccessorsRecursively e mh foldPath t = Inl Diverges"
| "accessorFields e mh foldPath i [] = Inr mh"
| "accessorFields e mh foldPath i (Field name tag ty # fs) =
     (case (if isStructOrPtrToStruct ty
            then createFieldsAccessorsRecursively e
                   (fst mh, snd (appendInt e (snd mh) foldPath i))
                   (fst (appendInt e (snd mh) foldPath i)) ty
            else Inr mh) of
        Inl f \<Rightarrow> Inl f
      | Inr mh' \<Rightarrow>
          accessorFields e
            ((fst mh')((case tag of Some a \<Rightarrow> a | None \<Rightarrow> ToLower name) \<mapsto>
                \<lparr>fieldType_of = ty, fieldIndex = fst (appendInt e (snd mh') foldPath i)\<rparr>),
             snd (appendInt e (snd mh') foldPath i))
            foldPath (Suc i) fs)"

definition createFieldsAccessors ::
  "env \<Rightarrow> gotype \<Rightarrow> failure + ((string \<rightharpoonup> fieldAccessor) \<times> heap)" where
  "createFieldsAccessors e dstType =
     createFieldsAccessorsRecursively e (Map.empty, []) nilSlice dstType"

section \<open>Values and the record provider\<close>

text \<open>
  Go values, as far as the mapper looks into them.  Floating-point numbers are kept as
  their IEEE bit patterns.  \<open>VNil\<close> is the nil pointer (and the nil slice, map, channel,
  function and interface).  Every value the provider builds is freshly allocated and
  reachable from one place only, so a pointer is modelled by the value it points to.
\<close>

datatype goval =
    VBool bool
  | VInt int
  | VFloat "64 word"
  | VComplex "64 word" "64 word"
  | VString string
  | VNil
  | VPtr goval
  | VSlice "goval list"
  | VArray "goval list"
  | VStruct "goval list"

text \<open>The zero value of a type: what \<^verbatim>\<open>reflect.New(t).Elem()\<close> holds.\<close>

fun zero :: "gotype \<Rightarrow> goval"
  and zeroFields :: "field list \<Rightarrow> goval list"
where
  "zero (TBasic k) =
     (if k = KBool then VBool False
      else if k = KString then VString []
      else if k = KFloat32 \<or> k = KFloat64 then VFloat 0
      else if k = KComplex64 \<or> k = KComplex128 then VComplex 0 0
      else VInt 0)"
| "zero (TPtr t) = VNil"
| "zero (TSlice t) = VNil"
| "zero (TArray n t) = VArray (replicate n (zero t))"
| "zero (TMap k v) = VNil"
| "zero (TChan t) = VNil"
| "zero TFunc = VNil"
| "zero TInterface = VNil"
| "zero (TStruct n fs) = VStruct (zeroFields fs)"
| "zeroFields [] = []"
| "zeroFields (Field name tag ty # fs) = zero ty # zeroFields fs"

fun unwrapPtrStructType_loop :: "nat \<Rightarrow> gotype \<Rightarrow> error + (gotype \<times> nat)" where
  "unwrapPtrStructType_loop levels (TPtr t) = unwrapPtrStructType_loop (levels + 1) t"
| "unwrapPtrStructType_loop levels (TStruct n fs) = Inr (TStruct n fs, levels)"
| "unwrapPtrStructType_loop levels t = Inl (NotAStruct t)"

definition unwrapPtrStructType :: "gotype \<Rightarrow> error + (gotype \<times> nat)" where
  "unwrapPtrStructType wrapped = unwrapPtrStructType_loop 0 wrapped"

text \<open>
  A provider is a closure over the unwrapped struct type, the pointer depth and the list
  of init actions; an init action is a closure over the field's index, the provider of
  the nested struct and the pointer nesting of the field.  Both are kept as data and run
  by \<open>provide\<close> below.
\<close>

datatype structProvider = StructProvider gotype nat "initAction list"
and initAction = InitAction nat structProvider nat

type_synonym providerCache = "gotype \<rightharpoonup> structProvider"

lemma unwrapPtrStructType_loop_size:
  "unwrapPtrStructType_loop l t = Inr (a, d) \<Longrightarrow> size a \<le> size t"
  by (induction l t rule: unwrapPtrStructType_loop.induct) auto

text \<open>
  \<^verbatim>\<open>structProvideManager.getOrCreate\<close>.  \<open>providerFields\<close> is the loop over the fields
  of the unwrapped struct, \<open>determineField\<close> the inner loop \<^verbatim>\<open>LoopDetermineField\<close> that
  peels pointers off one field, counting them in \<open>ptrNesting\<close>.  The cache \<^verbatim>\<open>byType\<close> is
  threaded through.
\<close>

function getOrCreate :: "env \<Rightarrow> providerCache \<Rightarrow> gotype \<Rightarrow> failure + (structProvider \<times> providerCache)"
  and providerFields ::
    "env \<Rightarrow> providerCache \<Rightarrow> nat \<Rightarrow> field list \<Rightarrow> failure + (initAction list \<times> providerCache)"
  and determineField ::
    "env \<Rightarrow> providerCache \<Rightarrow> nat \<Rightarrow> nat \<Rightarrow> gotype \<Rightarrow> failure + (initAction option \<times> providerCache)"
where
  "getOrCreate e c forType =
     (case c forType of
        Some provider \<Rightarrow> Inr (provider, c)
      | None \<Rightarrow>
          (case unwrapPtrStructType forType of
             Inl err \<Rightarrow> Inl (Err err)
           | Inr (actualType, ptrDepth) \<Rightarrow>
               (case actualType of
                  TStruct n fs \<Rightarrow>
                    (case providerFields e c 0 fs of
                       Inl f \<Rightarrow> Inl f
                     | Inr (initActions, c') \<Rightarrow>
                         let provider = StructProvider actualType ptrDepth initActions
                         in Inr (provider, c'(forType \<mapsto> provider)))
                | _ \<Rightarrow> Inl (Err (NotAStruct actualType)))))"
| "providerFields e c i [] = Inr ([], c)"
| "providerFields e c i (Field name tag ty # fs) =
     (case determineField e c i 0 ty of
        Inl f \<Rightarrow> Inl f
      | Inr (action, c') \<Rightarrow>
          (case providerFields e c' (Suc i) fs of
             Inl f \<Rightarrow> Inl f
           | Inr (initActions, c'') \<Rightarrow>
               Inr ((case action of None \<Rightarrow> [] | Some a \<Rightarrow> [a]) @ initActions, c'')))"
| "determineField e c i ptrNesting (TStruct n fs) =
     (if isSmallestStructDecomposition e (TStruct n fs) then Inr (None, c)
      else (case getOrCreate e c (TStruct n fs) of
              Inl f \<Rightarrow> Inl f
            | Inr (provider, c') \<Rightarrow> Inr (Some (InitAction i provider ptrNesting), c')))"
| "determineField e c i ptrNesting (TPtr t) = determineField e c i (ptrNesting + 1) t"
| "determineField e c i ptrNesting (TBasic k) = Inr (None, c)"
| "determineField e c i ptrNesting (TSlice t) = Inr (None, c)"
| "determineField e c i ptrNesting (TArray n t) = Inr (None, c)"
| "determineField e c i ptrNesting (TMap k v) = Inr (None, c)"
| "determineField e c i ptrNesting (TChan t) = Inr (None, c)"
| "determineField e c i ptrNesting TFunc = Inr (None, c)"
| "determineField e c i ptrNesting TInterface = Inr (None, c)"
  by pat_completeness auto
termination
  by (relation "measure (\<lambda>x. case x of
          Inl (e, c, t) \<Rightarrow> 2 * size t + 1
        | Inr (Inl (e, c, i, fs)) \<Rightarrow> 2 * size_list size fs
        | Inr (Inr (e, c, i, n, t)) \<Rightarrow> 2 * size t + 2)")
     (auto simp: unwrapPtrStructType_def dest: unwrapPtrStructType_loop_size)

declare getOrCreate.simps [simp del]

text \<open>
  \<^verbatim>\<open>reflect.Value.Addr\<close> panics on a value that is not addressable, and the pointer it
  returns is itself not addressable.  A value is therefore carried with its
  addressability: the fresh \<^verbatim>\<open>reflect.New(t).Elem()\<close> is addressable.
\<close>

fun addrLoop :: "nat \<Rightarrow> goval \<times> bool \<Rightarrow> failure + (goval \<times> bool)" where
  "addrLoop 0 va = Inr va"
| "addrLoop (Suc n) (v, addressable) =
     (if addressable then addrLoop n (VPtr v, False)
      else Inl (Panic ''reflect.Value.Addr of unaddressable value''))"

text \<open>
  \<^verbatim>\<open>Field(idx).Set(v)\<close>.  The fields of a record are taken to be exported: the panic of
  \<^verbatim>\<open>Set\<close> on an unexported field is outside this model.
\<close>

fun setField :: "nat \<Rightarrow> goval \<Rightarrow> goval \<Rightarrow> failure + goval" where
  "setField idx v (VStruct vs) =
     (if idx < length vs then Inr (VStruct (vs[idx := v]))
      else Inl (Panic ''reflect: Field index out of range''))"
| "setField idx v w = Inl (Panic ''reflect: call of reflect.Value.Field on non-struct Value'')"

text \<open>
  Running a provider: allocate the zero struct, run the init actions in order, wrap the
  result in \<open>ptrDepth\<close> pointers.  An init action runs the nested provider, wraps its
  result in \<open>ptrNesting\<close> pointers and stores it into field \<open>idx\<close>.
\<close>

fun provide :: "structProvider \<Rightarrow> failure + (goval \<times> bool)"
  and runInitActions :: "initAction list \<Rightarrow> goval \<Rightarrow> failure + goval"
  and runInitAction :: "initAction \<Rightarrow> goval \<Rightarrow> failure + goval"
where
  "provide (StructProvider actualType ptrDepth initActions) =
     (case runInitActions initActions (zero actualType) of
        Inl f \<Rightarrow> Inl f
      | Inr holderValue \<Rightarrow> addrLoop ptrDepth (holderValue, True))"
| "runInitActions [] holderValue = Inr holderValue"
| "runInitActions (a # as) holderValue =
     (case runInitAction a holderValue of
        Inl f \<Rightarrow> Inl f
      | Inr holderValue' \<Rightarrow> runInitActions as holderValue')"
| "runInitAction (InitAction idx provider ptrNesting) initStruct =
     (case provide provider of
        Inl f \<Rightarrow> Inl f
      | Inr initFieldValue \<Rightarrow>
          (case addrLoop ptrNesting initFieldValue of
             Inl f \<Rightarrow> Inl f
           | Inr (v, addressable) \<Rightarrow> setField idx v initStruct))"

fun unwrapPtrStructValue_loop :: "nat \<Rightarrow> goval \<Rightarrow> error + (goval \<times> nat)" where
  "unwrapPtrStructValue_loop levels (VPtr v) = unwrapPtrStructValue_loop (levels + 1) v"
| "unwrapPtrStructValue_loop levels (VStruct vs) = Inr (VStruct vs, levels)"
| "unwrapPtrStructValue_loop levels v = Inl ValueNotAStruct"

definition unwrapPtrStructValue :: "goval \<Rightarrow> error + (goval \<times> nat)" where
  "unwrapPtrStructValue wrapped = unwrapPtrStructValue_loop 0 wrapped"

section \<open>Columns, rows and the scan capability\<close>

text \<open>
  \<^verbatim>\<open>sql.ColumnType\<close> is a struct of the standard library; the cache compares two of them
  with \<^verbatim>\<open>!=\<close> on the dereferenced pointers, that is field by field.  Its fields are the
  column's name, three presence flags, nullability, length, the database type name,
  precision, scale and the scan type reported by the driver.
\<close>

record ColumnType =
  name :: string
  hasNullable :: bool
  hasLength :: bool
  hasPrecisionScale :: bool
  nullable :: bool
  length_of :: "64 word"
  databaseType :: string
  precision :: "64 word"
  scale :: "64 word"
  scanType :: gotype

text \<open>A cell of a row as the driver hands it over; \<open>CNull\<close> is SQL NULL.\<close>

datatype cell =
    CNull
  | CInt int
  | CFloat "64 word"
  | CBool bool
  | CBytes string
  | CString string
  | CTime int

text \<open>
  The row stream \<^verbatim>\<open>*sql.Rows\<close>.  Given with the stream are what \<^verbatim>\<open>ColumnTypes\<close> answers,
  the rows still to come, the error with which the driver ends the rows (\<open>None\<close> for a
  plain end of rows) and the error with which the driver answers the close.  The state
  of the stream is whether it is closed and the error it has recorded, \<^verbatim>\<open>lasterr\<close>,
  which is read once the stream is closed: an open stream has no error to report.

  As in the standard library, \<^verbatim>\<open>Next\<close> closes the stream itself when the rows have come to
  their end, and the stream then records the error the rows ended with or, after a plain
  end, the error of that close; \<^verbatim>\<open>Err\<close> reports the recorded error.  \<^verbatim>\<open>Close\<close> on an
  open stream closes it, records the close error and returns it; on a closed stream it
  does nothing and returns nil.
\<close>

record rows =
  columnTypesResult :: "error + ColumnType list"
  pending :: "cell list list"
  streamErr :: "error option"
  closeErr :: "error option"
  closed :: bool
  lasterr :: "error option"

definition Next :: "rows \<Rightarrow> cell list option \<times> rows" where
  "Next r =
     (if closed r then (None, r)
      else (case pending r of
              [] \<Rightarrow>
                (None, r\<lparr>closed := True,
                          lasterr := (case streamErr r of
                                        Some err \<Rightarrow> Some err
                                      | None \<Rightarrow> closeErr r)\<rparr>)
            | row # rest \<Rightarrow> (Some row, r\<lparr>pending := rest\<rparr>)))"

definition rowsErr :: "rows \<Rightarrow> error option" where
  "rowsErr r = (if closed r then lasterr r else None)"

definition Close :: "rows \<Rightarrow> error option \<times> rows" where
  "Close r =
     (if closed r then (None, r)
      else (closeErr r, r\<lparr>closed := True, lasterr := closeErr r\<rparr>))"

text \<open>
  What a holder supplier hands to \<^verbatim>\<open>Scan\<close>: the address of the field at an index path
  of the instance, or the address of a throw-away \<^verbatim>\<open>interface{}\<close>.
\<close>

datatype holder = FieldAddr "nat list" | SkipAddr

text \<open>
  The scan capability is the standard library's, not this package's.  Two parts of it are
  parameters: \<open>convert\<close>, the conversion of a cell into a fresh value of a non-pointer
  type, and \<open>scanFields\<close>, the scan of a whole row into the addresses of an instance's
  fields, which returns the instance as the writes leave it.
\<close>

record scanner =
  convert :: "gotype \<Rightarrow> cell \<Rightarrow> error + goval"
  scanFields :: "cell list \<Rightarrow> holder list \<Rightarrow> goval \<Rightarrow> error + goval"

text \<open>
  Modelled from the spec: the scan of one cell into a pointer-typed destination, which
  the spec describes as "nil for SQL NULL" and "matching pointee values" otherwise: NULL
  leaves the nil pointer, any other cell allocates the pointee and converts into it.
\<close>

fun convertAssign :: "scanner \<Rightarrow> gotype \<Rightarrow> cell \<Rightarrow> error + goval" where
  "convertAssign sc (TPtr t) c =
     (if c = CNull then Inr VNil
      else (case convertAssign sc t c of Inl err \<Rightarrow> Inl err | Inr v \<Rightarrow> Inr (VPtr v)))"
| "convertAssign sc t c = convert sc t c"

text \<open>\<^verbatim>\<open>rows.Scan\<close> with a single destination of type pointer to \<open>forType\<close>.\<close>

definition scanSingle :: "scanner \<Rightarrow> gotype \<Rightarrow> cell list \<Rightarrow> error + goval" where
  "scanSingle sc forType row =
     (case row of
        [c] \<Rightarrow> convertAssign sc forType c
      | _ \<Rightarrow> Inl (RowsError ''sql: expected destination arguments in Scan, not 1''))"

section \<open>Scan plans\<close>

datatype holderSupplier = HolderByFieldIndexPath "nat list" | HolderSkipColumn

text \<open>
  The loop of \<^verbatim>\<open>createHolderSuppliers\<close> over the reported columns.  A supplier closes
  over the accessor's index path, a slice; nothing writes to the heap of the paths once
  the accessors are resolved, so the supplier is given the path as that heap holds it.
\<close>

fun holderSuppliersLoop ::
  "bool \<Rightarrow> bool \<Rightarrow> (string \<rightharpoonup> fieldAccessor) \<Rightarrow> heap \<Rightarrow> ColumnType list
     \<Rightarrow> holderSupplier list \<Rightarrow> error + holderSupplier list" where
  "holderSuppliersLoop camtChk ctChk columnAliasToAccessor h [] holderSuppliers =
     Inr holderSuppliers"
| "holderSuppliersLoop camtChk ctChk columnAliasToAccessor h (columnType # rest) holderSuppliers =
     (case columnAliasToAccessor (ToLower (name columnType)) of
        Some accessor \<Rightarrow>
          (if ctChk \<and> scanType columnType \<noteq> fieldType_of accessor
           then Inl (ColumnTypeMismatch (name columnType) (fieldType_of accessor)
                       (scanType columnType))
           else holderSuppliersLoop camtChk ctChk columnAliasToAccessor h rest
                  (holderSuppliers @ [HolderByFieldIndexPath (readSlice h (fieldIndex accessor))]))
      | None \<Rightarrow>
          (if camtChk then Inl (NoMappingForColumn (name columnType))
           else holderSuppliersLoop camtChk ctChk columnAliasToAccessor h rest
                  (holderSuppliers @ [HolderSkipColumn])))"

definition createHolderSuppliers ::
  "env \<Rightarrow> gotype \<Rightarrow> ColumnType list \<Rightarrow> failure + holderSupplier list" where
  "createHolderSuppliers e dstType columnTypes =
     (case createFieldsAccessors e dstType of
        Inl f \<Rightarrow> Inl f
      | Inr (columnAliasToAccessor, h) \<Rightarrow>
          (case holderSuppliersLoop (columnAmountCheck e) (columnTypeCheck e)
                  columnAliasToAccessor h columnTypes [] of
             Inl err \<Rightarrow> Inl (Err err)
           | Inr holderSuppliers \<Rightarrow> Inr holderSuppliers))"

text \<open>
  A rows mapper is a closure; it is kept as data and run by \<open>runMapper\<close> below.  The
  single-column mapper closes over the element type, the multi-column mapper over the
  holder suppliers and the provider of the element type.
\<close>

datatype rowsMapper =
    SingleColumnMapper gotype
  | MultiColumnMapper "holderSupplier list" structProvider

record scanDefinition =
  columnTypes :: "ColumnType list"
  mapper :: rowsMapper

text \<open>The two process-wide caches.\<close>

record managers =
  scanDefinitionsMgr :: "gotype \<rightharpoonup> scanDefinition list"
  structProviderMgr :: providerCache

definition getOrCreateSync_provider ::
  "env \<Rightarrow> providerCache \<Rightarrow> gotype \<Rightarrow> failure + (structProvider \<times> providerCache)" where
  "getOrCreateSync_provider e c forType =
     (case c forType of
        Some provider \<Rightarrow> Inr (provider, c)
      | None \<Rightarrow> getOrCreate e c forType)"

definition multiColumnMapper ::
  "env \<Rightarrow> providerCache \<Rightarrow> gotype \<Rightarrow> ColumnType list \<Rightarrow> failure + (rowsMapper \<times> providerCache)" where
  "multiColumnMapper e c holderElementType cols =
     (case createHolderSuppliers e holderElementType cols of
        Inl f \<Rightarrow> Inl f
      | Inr holderSuppliers \<Rightarrow>
          (case getOrCreateSync_provider e c holderElementType of
             Inl f \<Rightarrow> Inl f
           | Inr (provider, c') \<Rightarrow> Inr (MultiColumnMapper holderSuppliers provider, c')))"

definition createRowsMapper ::
  "env \<Rightarrow> providerCache \<Rightarrow> gotype \<Rightarrow> ColumnType list \<Rightarrow> failure + (rowsMapper \<times> providerCache)" where
  "createRowsMapper e c holderElementType cols =
     (if isSingleBasicType e holderElementType
      then Inr (SingleColumnMapper holderElementType, c)
      else multiColumnMapper e c holderElementType cols)"

text \<open>
  \<^verbatim>\<open>scanDefinitionsManager.find\<close>: the first cached definition whose column types have
  the same length and are equal position by position.
\<close>

fun find_loop :: "scanDefinition list \<Rightarrow> ColumnType list \<Rightarrow> scanDefinition option" where
  "find_loop [] cols = None"
| "find_loop (scanDef # scanDefs) cols =
     (if length (columnTypes scanDef) \<noteq> length cols then find_loop scanDefs cols
      else if list_all2 (\<lambda>a b. a = b) (columnTypes scanDef) cols then Some scanDef
      else find_loop scanDefs cols)"

definition find_def :: "managers \<Rightarrow> gotype \<Rightarrow> ColumnType list \<Rightarrow> scanDefinition option" where
  "find_def mgr elemType cols =
     (case scanDefinitionsMgr mgr elemType of
        None \<Rightarrow> None
      | Some scanDefs \<Rightarrow> find_loop scanDefs cols)"

definition create :: "env \<Rightarrow> managers \<Rightarrow> gotype \<Rightarrow> ColumnType list \<Rightarrow> failure + (scanDefinition \<times> managers)" where
  "create e mgr elemType cols =
     (case createRowsMapper e (structProviderMgr mgr) elemType cols of
        Inl f \<Rightarrow> Inl f
      | Inr (m, c') \<Rightarrow>
          let scanDef = \<lparr>columnTypes = cols, mapper = m\<rparr> in
          Inr (scanDef,
               \<lparr>scanDefinitionsMgr =
                  (scanDefinitionsMgr mgr)(elemType \<mapsto>
                     (case scanDefinitionsMgr mgr elemType of
                        None \<Rightarrow> [] | Some scanDefs \<Rightarrow> scanDefs) @ [scanDef]),
                structProviderMgr = c'\<rparr>))"

definition getOrCreateSync ::
  "env \<Rightarrow> managers \<Rightarrow> gotype \<Rightarrow> ColumnType list \<Rightarrow> failure + (scanDefinition \<times> managers)" where
  "getOrCreateSync e mgr elemType cols =
     (case find_def mgr elemType cols of
        Some scanDef \<Rightarrow> Inr (scanDef, mgr)
      | None \<Rightarrow>
          (case find_def mgr elemType cols of
             Some scanDef \<Rightarrow> Inr (scanDef, mgr)
           | None \<Rightarrow> create e mgr elemType cols))"

section \<open>The row driver\<close>

text \<open>
  The destination is the pointer \<open>dst\<close> handed to \<^verbatim>\<open>Propagate\<close>, taken to be non-nil:
  its type, and the elements of the slice it points to.  \<^verbatim>\<open>prepareInjector\<close> unwraps pointers down to a
  slice; the injector it returns appends with \<^verbatim>\<open>reflect.Append\<close>, which panics when the
  value's type is not the slice's element type.
\<close>

fun prepareInjector :: "gotype \<Rightarrow> error + gotype" where
  "prepareInjector (TPtr t) = prepareInjector t"
| "prepareInjector (TSlice t) = Inr t"
| "prepareInjector t = Inl (HolderNotImplemented t)"

definition inject :: "gotype \<Rightarrow> gotype \<Rightarrow> goval \<Rightarrow> goval list \<Rightarrow> failure + goval list" where
  "inject sliceElem valueType v elems =
     (if valueType = sliceElem then Inr (elems @ [v])
      else Inl (Panic ''reflect.Set: value is not assignable to the element type''))"

lemma Next_pending:
  "Next r = (Some row, r') \<Longrightarrow> length (pending r') < length (pending r)"
  by (auto simp: Next_def split: if_splits list.splits)

text \<open>The loop of \<^verbatim>\<open>singleColumnMapper\<close>, then the mapper itself.\<close>

function singleColumnLoop ::
  "scanner \<Rightarrow> gotype \<Rightarrow> gotype \<Rightarrow> goval list \<Rightarrow> rows \<Rightarrow> failure option \<times> goval list \<times> rows" where
  "singleColumnLoop sc forType sliceElem elems r =
     (case Next r of
        (None, r') \<Rightarrow>
          (case rowsErr r' of
             Some err \<Rightarrow> (Some (Err err), elems, r')
           | None \<Rightarrow> (case Close r' of (res, r'') \<Rightarrow> (map_option Err res, elems, r'')))
      | (Some row, r') \<Rightarrow>
          (case scanSingle sc forType row of
             Inl err \<Rightarrow> (Some (Err err), elems, r')
           | Inr v \<Rightarrow>
               (case inject sliceElem forType v elems of
                  Inl f \<Rightarrow> (Some f, elems, r')
                | Inr elems' \<Rightarrow> singleColumnLoop sc forType sliceElem elems' r')))"
  by pat_completeness auto
termination
  by (relation "measure (\<lambda>(sc, forType, sliceElem, elems, r). length (pending r))")
     (auto dest: Next_pending [OF sym])

definition singleColumnMapper ::
  "scanner \<Rightarrow> gotype \<Rightarrow> gotype \<Rightarrow> goval list \<Rightarrow> rows \<Rightarrow> failure option \<times> goval list \<times> rows" where
  "singleColumnMapper sc forType holderType elems r =
     (case prepareInjector holderType of
        Inl err \<Rightarrow> (Some (Err err), elems, snd (Close r))
      | Inr sliceElem \<Rightarrow> singleColumnLoop sc forType sliceElem elems r)"

text \<open>
  \<^verbatim>\<open>reflect.Value.FieldByIndex\<close>: from the second index on, a pointer to a struct is
  followed first, with a panic when it is nil; \<^verbatim>\<open>Field\<close> panics on anything but a struct
  and on an index out of range.
\<close>

fun FieldByIndex_loop :: "bool \<Rightarrow> goval \<Rightarrow> nat list \<Rightarrow> failure + goval" where
  "FieldByIndex_loop first v [] = Inr v"
| "FieldByIndex_loop first v (x # xs) =
     (case (if first then v else (case v of VPtr s \<Rightarrow> s | _ \<Rightarrow> v)) of
        VStruct vs \<Rightarrow>
          (if x < length vs then FieldByIndex_loop False (vs ! x) xs
           else Inl (Panic ''reflect: Field index out of range''))
      | VNil \<Rightarrow> Inl (Panic ''reflect: indirection through nil pointer to embedded struct'')
      | _ \<Rightarrow> Inl (Panic ''reflect: call of reflect.Value.Field on non-struct Value''))"

definition FieldByIndex :: "goval \<Rightarrow> nat list \<Rightarrow> failure + goval" where
  "FieldByIndex v index = FieldByIndex_loop True v index"

fun supplyHolder :: "holderSupplier \<Rightarrow> goval \<Rightarrow> failure + holder" where
  "supplyHolder (HolderByFieldIndexPath holderIndexPath) underlyingValue =
     (case FieldByIndex underlyingValue holderIndexPath of
        Inl f \<Rightarrow> Inl f
      | Inr v \<Rightarrow> Inr (FieldAddr holderIndexPath))"
| "supplyHolder HolderSkipColumn underlyingValue = Inr SkipAddr"

fun supplyAll :: "holderSupplier list \<Rightarrow> goval \<Rightarrow> failure + holder list" where
  "supplyAll [] underlyingValue = Inr []"
| "supplyAll (h # hs) underlyingValue =
     (case supplyHolder h underlyingValue of
        Inl f \<Rightarrow> Inl f
      | Inr a \<Rightarrow>
          (case supplyAll hs underlyingValue of
             Inl f \<Rightarrow> Inl f
           | Inr as \<Rightarrow> Inr (a # as)))"

fun ptrTo :: "nat \<Rightarrow> gotype \<Rightarrow> gotype" where
  "ptrTo 0 t = t"
| "ptrTo (Suc n) t = TPtr (ptrTo n t)"

text \<open>The type of the value a provider returns.\<close>

fun providedType :: "structProvider \<Rightarrow> gotype" where
  "providedType (StructProvider actualType ptrDepth initActions) = ptrTo ptrDepth actualType"

text \<open>
  One turn of the loop of the multi-column mapper, up to the scan: a fresh instance from
  the provider, the addresses from the holder suppliers, the scan into them.
\<close>

definition mapRow ::
  "scanner \<Rightarrow> holderSupplier list \<Rightarrow> structProvider \<Rightarrow> cell list \<Rightarrow> failure + goval" where
  "mapRow sc holderSuppliers provider row =
     (case provide provider of
        Inl f \<Rightarrow> Inl f
      | Inr (holderElement, addressable) \<Rightarrow>
          (case unwrapPtrStructValue holderElement of
             Inl err \<Rightarrow> Inl (Err err)
           | Inr (underlyingValue, levels) \<Rightarrow>
               (case supplyAll holderSuppliers underlyingValue of
                  Inl f \<Rightarrow> Inl f
                | Inr holderElementFields \<Rightarrow>
                    (case scanFields sc row holderElementFields holderElement of
                       Inl err \<Rightarrow> Inl (Err err)
                     | Inr v \<Rightarrow> Inr v))))"

function multiColumnLoop ::
  "scanner \<Rightarrow> holderSupplier list \<Rightarrow> structProvider \<Rightarrow> gotype \<Rightarrow> goval list \<Rightarrow> rows
     \<Rightarrow> failure option \<times> goval list \<times> rows" where
  "multiColumnLoop sc holderSuppliers provider sliceElem elems r =
     (case Next r of
        (None, r') \<Rightarrow> (map_option Err (rowsErr r'), elems, r')
      | (Some row, r') \<Rightarrow>
          (case mapRow sc holderSuppliers provider row of
             Inl f \<Rightarrow> (Some f, elems, r')
           | Inr holderElement \<Rightarrow>
               (case inject sliceElem (providedType provider) holderElement elems of
                  Inl f \<Rightarrow> (Some f, elems, r')
                | Inr elems' \<Rightarrow>
                    multiColumnLoop sc holderSuppliers provider sliceElem elems' r')))"
  by pat_completeness auto
termination
  by (relation "measure (\<lambda>(sc, hs, p, sliceElem, elems, r). length (pending r))")
     (auto dest: Next_pending [OF sym])

declare multiColumnLoop.simps [simp del]

definition runMultiColumnMapper ::
  "scanner \<Rightarrow> holderSupplier list \<Rightarrow> structProvider \<Rightarrow> gotype \<Rightarrow> goval list \<Rightarrow> rows
     \<Rightarrow> failure option \<times> goval list \<times> rows" where
  "runMultiColumnMapper sc holderSuppliers provider holderType elems r =
     (case prepareInjector holderType of
        Inl err \<Rightarrow> (Some (Err err), elems, r)
      | Inr sliceElem \<Rightarrow> multiColumnLoop sc holderSuppliers provider sliceElem elems r)"

fun runMapper ::
  "scanner \<Rightarrow> rowsMapper \<Rightarrow> gotype \<Rightarrow> goval list \<Rightarrow> rows \<Rightarrow> failure option \<times> goval list \<times> rows" where
  "runMapper sc (SingleColumnMapper forType) holderType elems r =
     singleColumnMapper sc forType holderType elems r"
| "runMapper sc (MultiColumnMapper holderSuppliers provider) holderType elems r =
     runMultiColumnMapper sc holderSuppliers provider holderType elems r"

text \<open>
  \<^verbatim>\<open>Propagate\<close>.  It reads the column types, checks that the destination is a pointer to
  a slice, finds the element type, takes the scan definition from the cache (compiling it
  on a miss) and runs its mapper.  The result is the error (\<open>None\<close> for nil), the caches,
  the destination's elements and the row stream as the call leaves them.
\<close>

definition Propagate ::
  "env \<Rightarrow> scanner \<Rightarrow> managers \<Rightarrow> gotype \<Rightarrow> goval list \<Rightarrow> rows
     \<Rightarrow> failure option \<times> managers \<times> goval list \<times> rows" where
  "Propagate e sc mgr holderType elems r =
     (case columnTypesResult r of
        Inl err \<Rightarrow> (Some (Err err), mgr, elems, r)
      | Inr cols \<Rightarrow>
          (case holderType of
             TPtr holderElemType \<Rightarrow>
               (case holderElemType of
                  TSlice t \<Rightarrow>
                    (case elementType holderElemType of
                       Inl err \<Rightarrow> (Some (Err err), mgr, elems, r)
                     | Inr holderElementType \<Rightarrow>
                         (case getOrCreateSync e mgr holderElementType cols of
                            Inl f \<Rightarrow> (Some f, mgr, elems, r)
                          | Inr (scanDef, mgr') \<Rightarrow>
                              (case runMapper sc (mapper scanDef) holderType elems r of
                                 (res, elems', r') \<Rightarrow> (res, mgr', elems', r'))))
                | _ \<Rightarrow> (Some (Err (PointerToSliceExpected holderType)), mgr, elems, r))
           | _ \<Rightarrow> (Some (Err (PointerToSliceExpected holderType)), mgr, elems, r)))"

section \<open>The accessor table as a list of registrations\<close>

text \<open>
  The order of registration in words: the fields in declaration order; for a field that is
  a struct or a pointer to a struct first the registrations of the nested struct, then the
  field itself, under its tag or else its lower-cased name.  A registration is listed
  with its key, the field's type and the length of the field's index path (the nesting
  depth of the field).  \<open>register\<close> stores one registration, overwriting an earlier one
  under the same key.  \<open>viewOf\<close> shows a table of accessors in these terms.
\<close>

definition fieldKey :: "string \<Rightarrow> string option \<Rightarrow> string" where
  "fieldKey fname tag = (case tag of Some a \<Rightarrow> a | None \<Rightarrow> ToLower fname)"

definition register :: "('k \<rightharpoonup> 'v) \<Rightarrow> 'k \<times> 'v \<Rightarrow> ('k \<rightharpoonup> 'v)" where
  "register m ka = m(fst ka \<mapsto> snd ka)"

fun structRooted :: "gotype \<Rightarrow> bool" where
  "structRooted (TPtr t) = structRooted t"
| "structRooted (TStruct n fs) = True"
| "structRooted t = False"

fun registrations :: "nat \<Rightarrow> gotype \<Rightarrow> (string \<times> gotype \<times> nat) list"
  and fieldRegistrations :: "nat \<Rightarrow> field list \<Rightarrow> (string \<times> gotype \<times> nat) list"
where
  "registrations depth (TPtr t) = registrations depth t"
| "registrations depth (TStruct n fs) = fieldRegistrations depth fs"
| "registrations depth t = []"
| "fieldRegistrations depth [] = []"
| "fieldRegistrations depth (Field fname tag ty # fs) =
     (if isStructOrPtrToStruct ty then registrations (Suc depth) ty else [])
     @ [(fieldKey fname tag, ty, Suc depth)]
     @ fieldRegistrations depth fs"

definition viewOf :: "(string \<rightharpoonup> fieldAccessor) \<Rightarrow> (string \<rightharpoonup> gotype \<times> nat)" where
  "viewOf m = (\<lambda>k. map_option (\<lambda>a. (fieldType_of a, len (fieldIndex a))) (m k))"

text \<open>
  The accessor a resolved table holds under a key, read as \<^verbatim>\<open>createHolderSuppliers\<close> reads
  it: the field's type and the index path as the heap holds it once the resolution is
  over.
\<close>

definition accessorAt ::
  "(string \<rightharpoonup> fieldAccessor) \<times> heap \<Rightarrow> string \<Rightarrow> (gotype \<times> nat list) option" where
  "accessorAt mh k = map_option (\<lambda>a. (fieldType_of a, readSlice (snd mh) (fieldIndex a))) (fst mh k)"

section \<open>Initialised instances\<close>

text \<open>
  A field type is a non-leaf when, under any number of pointers, it is a struct that is not
  a smallest decomposition.  An instance of a type is initialised when it has the type's
  pointer layers around a struct value in which every non-leaf field holds a non-nil,
  initialised value and every other field holds the zero value of its type.  A provider
  cache is good when every instance a cached provider returns is initialised for the
  type it is cached under.  The remaining definitions state what running init actions
  does to a struct value; they serve the proofs.
\<close>

fun nonLeaf :: "env \<Rightarrow> gotype \<Rightarrow> bool" where
  "nonLeaf e (TPtr t) = nonLeaf e t"
| "nonLeaf e (TStruct n fs) = (\<not> isSmallestStructDecomposition e (TStruct n fs))"
| "nonLeaf e t = False"







section \<open>Caches that hold single-column plans for scalar types\<close>

text \<open>
  The cache of scan definitions is keyed by element type.  It is well formed for scalars
  when every definition cached under a type that is a single basic type holds the
  single-column mapper of that type, which is what \<open>create\<close> stores there.
\<close>

text \<open>The definitions the cache holds for an element type (none when the key is absent).\<close>

definition cachedDefs :: "managers \<Rightarrow> gotype \<Rightarrow> scanDefinition list" where
  "cachedDefs mgr t = (case scanDefinitionsMgr mgr t of None \<Rightarrow> [] | Some scanDefs \<Rightarrow> scanDefs)"

definition plansSingle :: "env \<Rightarrow> managers \<Rightarrow> bool" where
  "plansSingle e mgr =
     (\<forall>t d. d \<in> set (cachedDefs mgr t) \<longrightarrow> isSingleBasicType e t
        \<longrightarrow> mapper d = SingleColumnMapper t)"

text \<open>The errors of plan compilation: an unmapped column, a column of the wrong type.\<close>

definition compileError :: "error \<Rightarrow> bool" where
  "compileError err =
     (case err of NoMappingForColumn cn \<Rightarrow> True
      | ColumnTypeMismatch cn ft st \<Rightarrow> True
      | _ \<Rightarrow> False)"

section \<open>Concurrent callers of the scan-definition cache\<close>

text \<open>
  \<^verbatim>\<open>getOrCreateSync\<close> as its callers run it side by side.  A caller is at one of the
  points between the lock operations of the function: before \<^verbatim>\<open>RLock\<close>; holding the read
  lock; after the first \<^verbatim>\<open>find\<close>, still holding it; after \<^verbatim>\<open>RUnlock\<close> on a miss, waiting
  for \<^verbatim>\<open>Lock\<close>; holding the write lock; after the second \<^verbatim>\<open>find\<close> missed; after the
  second \<^verbatim>\<open>find\<close> hit or \<^verbatim>\<open>create\<close> returned, before \<^verbatim>\<open>Unlock\<close>; returned.  The
  read-write mutex is its count of readers and its writer flag: \<^verbatim>\<open>RLock\<close> waits while
  a writer holds the mutex, \<^verbatim>\<open>Lock\<close> waits while anyone does.  \<open>fire e i s\<close> is the next
  step of caller \<open>i\<close>, or \<open>None\<close> when the caller has to wait or has returned; a run
  follows a schedule, the list of the callers that step in turn.
\<close>

datatype pc =
    Start
  | RLocked
  | Checked "scanDefinition option"
  | Waiting
  | Locked
  | Missed
  | Unlocking "failure + scanDefinition"
  | Done "failure + scanDefinition"

record caller =
  wantedType :: gotype
  wantedColumns :: "ColumnType list"
  at :: pc

record system =
  sdm :: managers
  readers :: nat
  writer :: bool
  callers :: "caller list"

definition moveTo :: "nat \<Rightarrow> pc \<Rightarrow> system \<Rightarrow> system" where
  "moveTo i p s = s\<lparr>callers := (callers s)[i := (callers s ! i)\<lparr>at := p\<rparr>]\<rparr>"

definition fire :: "env \<Rightarrow> nat \<Rightarrow> system \<Rightarrow> system option" where
  "fire e i s =
     (if length (callers s) \<le> i then None
      else
        let c = callers s ! i in
        (case at c of
           Start \<Rightarrow>
             (if writer s then None
              else Some (moveTo i RLocked (s\<lparr>readers := readers s + 1\<rparr>)))
         | RLocked \<Rightarrow>
             Some (moveTo i (Checked (find_def (sdm s) (wantedType c) (wantedColumns c))) s)
         | Checked found \<Rightarrow>
             (case found of
                Some scanDef \<Rightarrow> Some (moveTo i (Done (Inr scanDef)) (s\<lparr>readers := readers s - 1\<rparr>))
              | None \<Rightarrow> Some (moveTo i Waiting (s\<lparr>readers := readers s - 1\<rparr>)))
         | Waiting \<Rightarrow>
             (if writer s \<or> readers s \<noteq> 0 then None
              else Some (moveTo i Locked (s\<lparr>writer := True\<rparr>)))
         | Locked \<Rightarrow>
             (case find_def (sdm s) (wantedType c) (wantedColumns c) of
                Some scanDef \<Rightarrow> Some (moveTo i (Unlocking (Inr scanDef)) s)
              | None \<Rightarrow> Some (moveTo i Missed s))
         | Missed \<Rightarrow>
             (case create e (sdm s) (wantedType c) (wantedColumns c) of
                Inl f \<Rightarrow> Some (moveTo i (Unlocking (Inl f)) s)
              | Inr (scanDef, mgr') \<Rightarrow> Some (moveTo i (Unlocking (Inr scanDef)) (s\<lparr>sdm := mgr'\<rparr>)))
         | Unlocking res \<Rightarrow> Some (moveTo i (Done res) (s\<lparr>writer := False\<rparr>))
         | Done res \<Rightarrow> None))"

fun run :: "env \<Rightarrow> nat list \<Rightarrow> system \<Rightarrow> system option" where
  "run e [] s = Some s"
| "run e (i # schedule) s = (case fire e i s of None \<Rightarrow> None | Some s' \<Rightarrow> run e schedule s')"




section \<open>Example inputs\<close>

definition exColumn :: ColumnType where
  "exColumn = \<lparr>name = ''id'', hasNullable = True, hasLength = False, hasPrecisionScale = False,
      nullable = False, length_of = 0, databaseType = ''INT'', precision = 0, scale = 0,
      scanType = TBasic KInt64\<rparr>"

definition exColumnBig :: ColumnType where
  "exColumnBig = exColumn\<lparr>databaseType := ''BIGINT''\<rparr>"

definition exIntDef :: scanDefinition where
  "exIntDef = \<lparr>columnTypes = [exColumn], mapper = SingleColumnMapper (TBasic KInt)\<rparr>"

definition exIntCached :: managers where
  "exIntCached = \<lparr>scanDefinitionsMgr = [TBasic KInt \<mapsto> [exIntDef]], structProviderMgr = Map.empty\<rparr>"

text \<open>
  An example environment: no type implements \<^verbatim>\<open>sql.Scanner\<close>; the registry holds
  \<^verbatim>\<open>time.Time\<close> and \<^verbatim>\<open>time.Location\<close> (their private fields are left out); both checks
  are off; \<^verbatim>\<open>append\<close> gives a full slice of capacity 0 the capacity 1 and doubles any
  other capacity, as the runtime does for short slices of ints on a 64-bit platform.
\<close>

definition exEnv :: env where
  "exEnv = \<lparr>implementsScanner = (\<lambda>t. False),
            smallestStructDecompositions = [TStruct ''time.Time'' [], TStruct ''time.Location'' []],
            columnTypeCheck = False, columnAmountCheck = False,
            growCap = (\<lambda>c. if c = 0 then 1 else 2 * c)\<rparr>"

definition exInner :: gotype where
  "exInner = TStruct ''Inner'' [Field ''Id'' None (TBasic KInt), Field ''Col1'' None (TBasic KString)]"

definition exOuter :: gotype where
  "exOuter = TStruct ''Outer'' [Field ''Id'' None (TPtr exInner), Field ''Name'' None (TBasic KString)]"

definition exRef :: gotype where
  "exRef = TStruct ''refStruct''
     [Field ''Id'' None (TBasic KInt),
      Field ''CreationTimestamp'' (Some ''creation_time'') (TPtr (TBasic KString))]"

definition exColumnStamp :: ColumnType where
  "exColumnStamp = exColumn\<lparr>name := ''CreationTimestamp''\<rparr>"






text \<open>
  An example scanner.  It converts integers into \<^verbatim>\<open>int\<close>, strings into \<^verbatim>\<open>string\<close> and
  bytes into \<^verbatim>\<open>[]byte\<close>, and fails on everything else; scanning into the fields of an
  instance it stores NULL as nil, integers and strings as they are, each at its index
  path, and fails on any other cell.
\<close>

definition exConvert :: "gotype \<Rightarrow> cell \<Rightarrow> error + goval" where
  "exConvert t c =
     (case c of
        CInt n \<Rightarrow>
          (if t = TBasic KInt then Inr (VInt n)
           else Inl (RowsError ''sql: Scan error: unsupported conversion''))
      | CString s \<Rightarrow>
          (if t = TBasic KString then Inr (VString s)
           else Inl (RowsError ''sql: Scan error: unsupported conversion''))
      | CBytes s \<Rightarrow>
          (if t = TSlice (TBasic KUint8) then Inr (VSlice (map (\<lambda>b. VInt (of_char b)) s))
           else Inl (RowsError ''sql: Scan error: unsupported conversion''))
      | _ \<Rightarrow> Inl (RowsError ''sql: Scan error: unsupported conversion''))"

fun exCellValue :: "cell \<Rightarrow> error + goval" where
  "exCellValue CNull = Inr VNil"
| "exCellValue (CInt n) = Inr (VInt n)"
| "exCellValue (CString s) = Inr (VString s)"
| "exCellValue c = Inl (RowsError ''sql: Scan error: unsupported conversion'')"

fun writeAt :: "goval \<Rightarrow> nat list \<Rightarrow> goval \<Rightarrow> goval" where
  "writeAt v [] w = w"
| "writeAt (VPtr s) (x # xs) w = VPtr (writeAt s (x # xs) w)"
| "writeAt (VStruct vs) (x # xs) w = VStruct (vs[x := writeAt (vs ! x) xs w])"
| "writeAt v (x # xs) w = v"

fun exScanFields :: "cell list \<Rightarrow> holder list \<Rightarrow> goval \<Rightarrow> error + goval" where
  "exScanFields [] [] v = Inr v"
| "exScanFields (c # cs) (SkipAddr # hs) v = exScanFields cs hs v"
| "exScanFields (c # cs) (FieldAddr path # hs) v =
     (case exCellValue c of
        Inl err \<Rightarrow> Inl err
      | Inr w \<Rightarrow> exScanFields cs hs (writeAt v path w))"
| "exScanFields cs hs v = Inl (RowsError ''sql: wrong number of destination arguments in Scan'')"

definition exScanner :: scanner where
  "exScanner = \<lparr>convert = exConvert, scanFields = exScanFields\<rparr>"

definition exNoCache :: managers where
  "exNoCache = \<lparr>scanDefinitionsMgr = Map.empty, structProviderMgr = Map.empty\<rparr>"

definition exRows :: "ColumnType list \<Rightarrow> cell list list \<Rightarrow> rows" where
  "exRows cols rs = \<lparr>columnTypesResult = Inr cols, pending = rs, streamErr = None,
                closeErr = None, closed = False, lasterr = None\<rparr>"

text \<open>A row stream that ends without a stream error and whose close fails.\<close>

definition exRowsCloseFails :: "ColumnType list \<Rightarrow> cell list list \<Rightarrow> rows" where
  "exRowsCloseFails cols rs = (exRows cols rs)\<lparr>closeErr := Some (RowsError ''close failed'')\<rparr>"

definition exColumnTime :: ColumnType where
  "exColumnTime = exColumn\<lparr>name := ''creation_time''\<rparr>"

definition exRefProvider :: structProvider where
  "exRefProvider = StructProvider exRef 1 []"


text \<open>
  The strict amount check switched on; the caches as a first call with the check off and
  no rows leaves them; the scan definition that call compiles.
\<close>

definition exStrictEnv :: env where
  "exStrictEnv = StrictColumnAmountCheck True exEnv"

definition exCached :: managers where
  "exCached = fst (snd (Propagate exEnv exScanner exNoCache (TPtr (TSlice exRef)) []
                          (exRows [exColumnStamp] [])))"

definition exSkipDef :: scanDefinition where
  "exSkipDef = \<lparr>columnTypes = [exColumnStamp],
                 mapper = MultiColumnMapper [HolderSkipColumn] (StructProvider exRef 0 [])\<rparr>"

text \<open>
  A late registration.  \<^verbatim>\<open>sql.NullString\<close> is a struct whose pointer implements
  \<^verbatim>\<open>sql.Scanner\<close>, so the struct type itself has to be registered with
  \<^verbatim>\<open>SmallestStructDecomposition\<close> to be read from a single column; the scanner below
  scans a string or NULL into it.  The stale cache is what a call into
  \<^verbatim>\<open>*[]sql.NullString\<close> made before the registration, on a stream without rows, leaves
  behind.
\<close>

definition exNullString :: gotype where
  "exNullString = TStruct ''sql.NullString''
     [Field ''String'' None (TBasic KString), Field ''Valid'' None (TBasic KBool)]"

definition exColumnName :: ColumnType where
  "exColumnName = exColumn\<lparr>name := ''name'', databaseType := ''TEXT'',
                           scanType := TBasic KString\<rparr>"

definition exLateEnv :: env where
  "exLateEnv = SmallestStructDecomposition exNullString exEnv"

definition exNullConvert :: "gotype \<Rightarrow> cell \<Rightarrow> error + goval" where
  "exNullConvert t c =
     (if t = exNullString
      then (case c of
              CNull \<Rightarrow> Inr (VStruct [VString [], VBool False])
            | CString s \<Rightarrow> Inr (VStruct [VString s, VBool True])
            | _ \<Rightarrow> Inl (RowsError ''sql: Scan error: unsupported conversion''))
      else exConvert t c)"

definition exNullScanner :: scanner where
  "exNullScanner = \<lparr>convert = exNullConvert, scanFields = exScanFields\<rparr>"

definition exStaleCache :: managers where
  "exStaleCache = fst (snd (Propagate exEnv exNullScanner exNoCache (TPtr (TSlice exNullString)) []
                              (exRows [exColumnName] [])))"

definition exStaleDef :: scanDefinition where
  "exStaleDef = \<lparr>columnTypes = [exColumnName],
                  mapper = MultiColumnMapper [HolderSkipColumn] (StructProvider exNullString 0 [])\<rparr>"



text \<open>
  The deeply nested record of the test suite with a second field in its innermost
  struct, and an instance of it with given values in these two fields.
\<close>

definition exLevel1Wide :: gotype where
  "exLevel1Wide = TStruct ''level1''
     [Field ''Id'' None (TBasic KInt), Field ''Name'' None (TBasic KString)]"

definition exLevel2Wide :: gotype where
  "exLevel2Wide = TStruct ''level2''
     [Field ''Col1'' None (TBasic KString), Field ''With'' None (TPtr exLevel1Wide)]"

definition exLevel3Wide :: gotype where
  "exLevel3Wide = TStruct ''level3''
     [Field ''Col2'' None (TPtr (TBasic KString)), Field ''With'' None (TPtr exLevel2Wide)]"

definition exWide :: gotype where
  "exWide = TStruct ''refStruct'' [Field ''With'' None (TPtr exLevel3Wide)]"

text \<open>
  The same nesting with an innermost struct \<^verbatim>\<open>level1{Id *leaf; Name string}\<close>, where
  \<^verbatim>\<open>leaf{Id int}\<close>: the field \<^verbatim>\<open>Id\<close> of \<^verbatim>\<open>level1\<close> and its descendant \<^verbatim>\<open>leaf.Id\<close> share
  the key \<^verbatim>\<open>id\<close>.
\<close>

definition exLeaf :: gotype where
  "exLeaf = TStruct ''leaf'' [Field ''Id'' None (TBasic KInt)]"

definition exLevel1Shadow :: gotype where
  "exLevel1Shadow = TStruct ''level1''
     [Field ''Id'' None (TPtr exLeaf), Field ''Name'' None (TBasic KString)]"

definition exLevel2Shadow :: gotype where
  "exLevel2Shadow = TStruct ''level2''
     [Field ''Col1'' None (TBasic KString), Field ''With'' None (TPtr exLevel1Shadow)]"

definition exLevel3Shadow :: gotype where
  "exLevel3Shadow = TStruct ''level3''
     [Field ''Col2'' None (TPtr (TBasic KString)), Field ''With'' None (TPtr exLevel2Shadow)]"

definition exShadow :: gotype where
  "exShadow = TStruct ''refStruct'' [Field ''With'' None (TPtr exLevel3Shadow)]"

definition exWideInstance :: "goval \<Rightarrow> goval \<Rightarrow> goval" where
  "exWideInstance idValue nameValue =
     VPtr (VStruct [VPtr (VStruct [VNil, VPtr (VStruct [VString [],
       VPtr (VStruct [idValue, nameValue])])])])"

section \<open>Plan reuse\<close>

lemma find_loop_eq: "find_loop ds cols = List.find (\<lambda>d. columnTypes d = cols) ds"
  by (induction ds) (auto simp: list_all2_eq [symmetric] dest: list_all2_lengthD)

text \<open>
  Claim C4, as stated, fails: a cached definition for \<^verbatim>\<open>int\<close> whose only column is
  \<open>exColumn\<close> is not reused for the column \<open>exColumnBig\<close>, which has the same name and
  the same reported scan type and differs in the database type name only; a second
  definition is compiled and appended.
\<close>

theorem C4_counterexample:
  "length [exColumnBig] = length (columnTypes exIntDef)
   \<and> map name [exColumnBig] = map name (columnTypes exIntDef)
   \<and> map scanType [exColumnBig] = map scanType (columnTypes exIntDef)
   \<and> find_def exIntCached (TBasic KInt) [exColumnBig] = None
   \<and> getOrCreateSync exEnv exIntCached (TBasic KInt) [exColumnBig]
       = Inr (\<lparr>columnTypes = [exColumnBig], mapper = SingleColumnMapper (TBasic KInt)\<rparr>,
              \<lparr>scanDefinitionsMgr = [TBasic KInt \<mapsto>
                   [exIntDef, \<lparr>columnTypes = [exColumnBig], mapper = SingleColumnMapper (TBasic KInt)\<rparr>]],
               structProviderMgr = Map.empty\<rparr>)"
  by (simp add: exColumnBig_def exColumn_def exIntDef_def exIntCached_def find_def_def
        getOrCreateSync_def create_def createRowsMapper_def exEnv_def Let_def)

text \<open>
  Claim C4, amended: a cached definition is reused exactly when its column types equal
  the new ones as whole descriptors (same length, and every field equal position by
  position); the first such definition is returned and the caches are left as they are.
  Otherwise a mapper is compiled: when that fails the failure is returned, and when it
  succeeds the new definition is appended after the definitions already cached for the
  element type.
\<close>

theorem C4_plan_reuse:
  "(case List.find (\<lambda>d. columnTypes d = cols) (cachedDefs mgr t) of
      Some d \<Rightarrow> getOrCreateSync e mgr t cols = Inr (d, mgr)
    | None \<Rightarrow>
        (case createRowsMapper e (structProviderMgr mgr) t cols of
           Inl f \<Rightarrow> getOrCreateSync e mgr t cols = Inl f
         | Inr (m, c') \<Rightarrow>
             getOrCreateSync e mgr t cols =
               Inr (\<lparr>columnTypes = cols, mapper = m\<rparr>,
                    \<lparr>scanDefinitionsMgr = (scanDefinitionsMgr mgr)
                        (t \<mapsto> cachedDefs mgr t @ [\<lparr>columnTypes = cols, mapper = m\<rparr>]),
                     structProviderMgr = c'\<rparr>)))"
  by (auto simp: getOrCreateSync_def find_def_def cachedDefs_def find_loop_eq create_def Let_def
        split: option.splits sum.splits)


section \<open>The order of registrations\<close>

lemma isStructOrPtrToStruct_rooted: "isStructOrPtrToStruct t \<Longrightarrow> structRooted t"
  by (induction t rule: isStructOrPtrToStruct.induct) auto

lemma register_pair: "register m (k, a) = m(k \<mapsto> a)"
  by (simp add: register_def)

lemma len_appendInt: "len (fst (appendInt e h s x)) = Suc (len s)"
  by (simp add: appendInt_def Let_def)

lemma viewOf_upd:
  "viewOf (m(k \<mapsto> a)) = (viewOf m)(k \<mapsto> (fieldType_of a, len (fieldIndex a)))"
  by (auto simp: viewOf_def)

lemma viewOf_None: "viewOf m k = None \<longleftrightarrow> m k = None"
  by (simp add: viewOf_def)

lemma accessors_registrations:
  "structRooted t \<Longrightarrow>
     \<exists>mh'. createFieldsAccessorsRecursively e mh foldPath t = Inr mh'
        \<and> viewOf (fst mh') = foldl register (viewOf (fst mh)) (registrations (len foldPath) t)"
  "\<exists>mh'. accessorFields e mh foldPath i fs = Inr mh'
        \<and> viewOf (fst mh') = foldl register (viewOf (fst mh)) (fieldRegistrations (len foldPath) fs)"
proof (induction e mh foldPath t and e mh foldPath i fs
       rule: createFieldsAccessorsRecursively_accessorFields.induct)
  case (5 e mh foldPath i name tag ty fs)
  let ?nested = "if isStructOrPtrToStruct ty
                 then createFieldsAccessorsRecursively e
                        (fst mh, snd (appendInt e (snd mh) foldPath i))
                        (fst (appendInt e (snd mh) foldPath i)) ty
                 else Inr mh"
  have "\<exists>mh1. ?nested = Inr mh1
          \<and> viewOf (fst mh1) = foldl register (viewOf (fst mh))
                (if isStructOrPtrToStruct ty then registrations (Suc (len foldPath)) ty else [])"
  proof (cases "isStructOrPtrToStruct ty")
    case True
    with "5.IH"(1) [OF True] show ?thesis
      by (simp add: isStructOrPtrToStruct_rooted len_appendInt)
  next
    case False
    then show ?thesis by simp
  qed
  then obtain mh1 where step: "?nested = Inr mh1"
    and view1: "viewOf (fst mh1) = foldl register (viewOf (fst mh))
                (if isStructOrPtrToStruct ty then registrations (Suc (len foldPath)) ty else [])"
    by blast
  let ?acc = "\<lparr>fieldType_of = ty, fieldIndex = fst (appendInt e (snd mh1) foldPath i)\<rparr>"
  let ?key = "case tag of Some a \<Rightarrow> a | None \<Rightarrow> ToLower name"
  from "5.IH"(2) [OF step] obtain mh2 where
    rest: "accessorFields e ((fst mh1)(?key \<mapsto> ?acc), snd (appendInt e (snd mh1) foldPath i))
             foldPath (Suc i) fs = Inr mh2"
    and view2: "viewOf (fst mh2) = foldl register (viewOf ((fst mh1)(?key \<mapsto> ?acc)))
                  (fieldRegistrations (len foldPath) fs)"
    by (auto simp: fun_upd_def)
  have "accessorFields e mh foldPath i (Field name tag ty # fs) = Inr mh2"
    using rest by (simp only: accessorFields.simps step sum.case)
  moreover have "viewOf (fst mh2) = foldl register (viewOf (fst mh))
                   (fieldRegistrations (len foldPath) (Field name tag ty # fs))"
    unfolding view2 viewOf_upd
    by (simp add: view1 register_pair fieldKey_def len_appendInt)
  ultimately show ?case by blast
qed simp_all

lemma accessors_diverge:
  "\<not> structRooted t \<Longrightarrow> createFieldsAccessorsRecursively e mh foldPath t = Inl Diverges"
  by (induction t arbitrary: mh foldPath) simp_all

lemma foldl_register_other:
  "k \<notin> fst ` set regs \<Longrightarrow> foldl register m regs k = m k"
  by (induction regs arbitrary: m) (auto simp: register_def)

lemma fieldRegistrations_append:
  "fieldRegistrations depth (pre @ fs) = fieldRegistrations depth pre @ fieldRegistrations depth fs"
proof (induction pre)
  case Nil
  show ?case by simp
next
  case (Cons f pre)
  then show ?case by (cases f) simp
qed

text \<open>
  Seen through the field types and the lengths of the index paths, the resolved table is
  what the registrations give when they are stored in order, each store overwriting an
  earlier one under the same key: the fields in declaration order, a nested struct's
  registrations before the field's own.  (On a type not rooted at a struct the resolution
  loop never exits.)  This says nothing yet about where the index paths lead.
\<close>

lemma registrations_in_order:
  "(if structRooted t
    then \<exists>m' h'. createFieldsAccessorsRecursively e (m, h) foldPath t = Inr (m', h')
           \<and> viewOf m' = foldl register (viewOf m) (registrations (len foldPath) t)
    else createFieldsAccessorsRecursively e (m, h) foldPath t = Inl Diverges)
   \<and> (\<forall>n pre fname tag ty post.
         t = TStruct n (pre @ Field fname tag ty # post)
         \<and> fieldKey fname tag \<notin> fst ` set (fieldRegistrations (len foldPath) post)
         \<longrightarrow> foldl register (viewOf m) (registrations (len foldPath) t) (fieldKey fname tag)
             = Some (ty, Suc (len foldPath)))"
proof (intro conjI allI impI)
  show "if structRooted t
    then \<exists>m' h'. createFieldsAccessorsRecursively e (m, h) foldPath t = Inr (m', h')
           \<and> viewOf m' = foldl register (viewOf m) (registrations (len foldPath) t)
    else createFieldsAccessorsRecursively e (m, h) foldPath t = Inl Diverges"
    using accessors_registrations(1) [of t e "(m, h)" foldPath] accessors_diverge [of t e "(m, h)" foldPath]
    by auto
next
  fix n pre fname tag ty post
  assume "t = TStruct n (pre @ Field fname tag ty # post)
         \<and> fieldKey fname tag \<notin> fst ` set (fieldRegistrations (len foldPath) post)"
  then show "foldl register (viewOf m) (registrations (len foldPath) t) (fieldKey fname tag)
             = Some (ty, Suc (len foldPath))"
    by (simp add: fieldRegistrations_append foldl_register_other register_pair)
qed

text \<open>
  Where no two index paths share a backing array the entries lead to their fields.  In
  \<^verbatim>\<open>Outer{Id *Inner; Name string}\<close> with \<^verbatim>\<open>Inner{Id int; Col1 string}\<close> the key \<^verbatim>\<open>id\<close> is
  registered for \<^verbatim>\<open>Inner.Id\<close> first and then for \<^verbatim>\<open>Outer.Id\<close>, which wins and is found at
  its own index path.
\<close>

lemma exOuter_accessors:
  "case createFieldsAccessors exEnv exOuter of
     Inl f \<Rightarrow> False
   | Inr mh \<Rightarrow>
       accessorAt mh ''id'' = Some (TPtr exInner, [0])
       \<and> accessorAt mh ''col1'' = Some (TBasic KString, [0, 1])
       \<and> accessorAt mh ''name'' = Some (TBasic KString, [1])"
  by code_simp

text \<open>
  Claim C3 does not hold of the code.  The fields are walked in declaration order, a
  nested struct is resolved before the field's own accessor is stored, and a store
  overwrites an earlier one under the same key; but what is stored for a field is not
  always an accessor of the field itself.  In
  \<^verbatim>\<open>refStruct{With *level3{Col2 *string; With *level2{Col1 string; With *level1{Id *leaf; Name string}}}}\<close>
  with \<^verbatim>\<open>leaf{Id int}\<close>, the field \<^verbatim>\<open>level1.Id\<close> is at the index path 0, 1, 1, 0 and its
  descendant \<^verbatim>\<open>leaf.Id\<close> at 0, 1, 1, 0, 0.  The key \<^verbatim>\<open>id\<close> is stored for the descendant and
  then for \<^verbatim>\<open>level1.Id\<close>, whose type the entry keeps.  The index path that leads to
  \<^verbatim>\<open>level1\<close> has length three in a backing array of capacity four, so the paths of
  \<^verbatim>\<open>level1.Id\<close> and of \<^verbatim>\<open>level1.Name\<close> are appended in place, in the same array, and the
  second overwrites the first: the entry under \<^verbatim>\<open>id\<close> ends with the index path of
  \<^verbatim>\<open>Name\<close>, and a column \<^verbatim>\<open>id\<close> is bound to that path.
\<close>

theorem C3_own_entry_leads_to_sibling:
  "(case createFieldsAccessors exEnv exShadow of
      Inl f \<Rightarrow> False
    | Inr mh \<Rightarrow>
        accessorAt mh ''id'' = Some (TPtr exLeaf, [0, 1, 1, 1])
        \<and> accessorAt mh ''name'' = Some (TBasic KString, [0, 1, 1, 1]))
   \<and> createHolderSuppliers exEnv exShadow [exColumn] = Inr [HolderByFieldIndexPath [0, 1, 1, 1]]"
  by code_simp

section \<open>Binding columns to fields\<close>

lemma viewOf_empty: "viewOf Map.empty = Map.empty"
  by (simp add: viewOf_def)

lemma createFieldsAccessors_view:
  assumes "structRooted t"
  shows "\<exists>tbl h. createFieldsAccessors e t = Inr (tbl, h)
           \<and> viewOf tbl = foldl register Map.empty (registrations 0 t)"
proof -
  let ?mh = "(Map.empty, []) :: (string \<rightharpoonup> fieldAccessor) \<times> heap"
  have "\<exists>mh'. createFieldsAccessorsRecursively e ?mh nilSlice t = Inr mh'
     \<and> viewOf (fst mh') = foldl register (viewOf (fst ?mh)) (registrations (len nilSlice) t)"
    using assms by (rule accessors_registrations(1))
  then obtain mh' where both:
    "createFieldsAccessorsRecursively e ?mh nilSlice t = Inr mh'
     \<and> viewOf (fst mh') = foldl register (viewOf (fst ?mh)) (registrations (len nilSlice) t)" ..
  obtain tbl h where mh': "mh' = (tbl, h)" by (cases mh')
  from both have "createFieldsAccessors e t = Inr (tbl, h)"
    by (simp add: createFieldsAccessors_def mh')
  moreover from both have "viewOf tbl = foldl register Map.empty (registrations 0 t)"
    by (simp add: mh' viewOf_empty nilSlice_def)
  ultimately show ?thesis by (intro exI conjI)
qed

lemma foldl_register_none:
  "k \<notin> fst ` set regs \<Longrightarrow> foldl register Map.empty regs k = None"
  by (simp add: foldl_register_other)

text \<open>
  Claim C5 does not hold of the code.  In
  \<^verbatim>\<open>*refStruct{With *level3{Col2 *string; With *level2{Col1 string; With *level1{Id int; Name string}}}}\<close>
  the index path that leads to \<^verbatim>\<open>level1\<close> has length three in a backing array of
  capacity four, so the paths of \<^verbatim>\<open>Id\<close> and of \<^verbatim>\<open>Name\<close> are appended in place, in the same
  array, and the second overwrites the first.  The column \<^verbatim>\<open>id\<close> is bound to the path of
  \<^verbatim>\<open>Name\<close>: the scanned value lands in \<^verbatim>\<open>Name\<close> and \<^verbatim>\<open>Id\<close> stays zero.
\<close>

theorem C5_nested_field_misbound:
  "createHolderSuppliers exEnv (TPtr exWide) [exColumn] = Inr [HolderByFieldIndexPath [0, 1, 1, 1]]
   \<and> fst (Propagate exEnv exScanner exNoCache (TPtr (TSlice (TPtr exWide))) []
            (exRows [exColumn] [[CInt 7]])) = None
   \<and> fst (snd (snd (Propagate exEnv exScanner exNoCache (TPtr (TSlice (TPtr exWide))) []
            (exRows [exColumn] [[CInt 7]]))))
       = [exWideInstance (VInt 0) (VInt 7)]"
proof -
  let ?hs = "[HolderByFieldIndexPath [0, 1, 1, 1]]"
  have suppliers: "createHolderSuppliers exEnv (TPtr exWide) [exColumn] = Inr ?hs"
    by code_simp
  have "case getOrCreate exEnv Map.empty (TPtr exWide) of
          Inl f \<Rightarrow> False
        | Inr (p, c') \<Rightarrow> provide p = Inr (exWideInstance (VInt 0) (VString []), False)
            \<and> providedType p = TPtr exWide"
    by code_simp
  then obtain p c' where prov: "getOrCreate exEnv Map.empty (TPtr exWide) = Inr (p, c')"
    and inst: "provide p = Inr (exWideInstance (VInt 0) (VString []), False)"
    and pt: "providedType p = TPtr exWide"
    by (auto split: sum.splits)
  have notsingle: "\<not> isSingleBasicType exEnv (TPtr exWide)"
    by (simp add: exEnv_def exWide_def isSmallestStructDecomposition_def)
  have goc: "getOrCreateSync exEnv exNoCache (TPtr exWide) [exColumn] =
      Inr (\<lparr>columnTypes = [exColumn], mapper = MultiColumnMapper ?hs p\<rparr>,
           \<lparr>scanDefinitionsMgr = [TPtr exWide \<mapsto>
              [\<lparr>columnTypes = [exColumn], mapper = MultiColumnMapper ?hs p\<rparr>]],
            structProviderMgr = c'\<rparr>)"
    using suppliers prov notsingle
    by (simp add: getOrCreateSync_def find_def_def create_def createRowsMapper_def
          multiColumnMapper_def getOrCreateSync_provider_def exNoCache_def Let_def)
  have et: "elementType (TSlice (TPtr exWide)) = Inr (TPtr exWide)"
    by (simp add: elementType_def)
  have row: "mapRow exScanner ?hs p [CInt 7] = Inr (exWideInstance (VInt 0) (VInt 7))"
    by (simp add: mapRow_def inst exWideInstance_def unwrapPtrStructValue_def FieldByIndex_def
          exScanner_def)
  have run: "runMultiColumnMapper exScanner ?hs p (TPtr (TSlice (TPtr exWide))) []
               (exRows [exColumn] [[CInt 7]])
             = (None, [exWideInstance (VInt 0) (VInt 7)], (exRows [exColumn] [])\<lparr>closed := True\<rparr>)"
    using row
    by (simp add: runMultiColumnMapper_def multiColumnLoop.simps Next_def rowsErr_def
          inject_def pt exRows_def)
  have "Propagate exEnv exScanner exNoCache (TPtr (TSlice (TPtr exWide))) []
            (exRows [exColumn] [[CInt 7]])
        = (None, \<lparr>scanDefinitionsMgr = [TPtr exWide \<mapsto>
              [\<lparr>columnTypes = [exColumn], mapper = MultiColumnMapper ?hs p\<rparr>]],
            structProviderMgr = c'\<rparr>,
           [exWideInstance (VInt 0) (VInt 7)], (exRows [exColumn] [])\<lparr>closed := True\<rparr>)"
    using et goc run by (simp add: Propagate_def exRows_def)
  with suppliers show ?thesis by simp
qed


section \<open>The record provider\<close>



lemma nonLeaf_ptrTo: "nonLeaf e (ptrTo k t) = nonLeaf e t"
  by (induction k) simp_all



















section \<open>Scalar destinations\<close>

lemmas ex_defs = exEnv_def exConvert_def exScanner_def exNoCache_def exRows_def exColumn_def
lemmas run_defs = Propagate_def elementType_def getOrCreateSync_def find_def_def create_def
  createRowsMapper_def singleColumnMapper_def Next_def rowsErr_def Close_def scanSingle_def
  inject_def Let_def

lemma columnTypesResult_exRows: "columnTypesResult (exRows cols rs) = Inr cols"
  by (simp add: exRows_def)

lemma exStaleCache_defs: "scanDefinitionsMgr exStaleCache = [exNullString \<mapsto> [exStaleDef]]"
proof -
  have suppliers: "createHolderSuppliers exEnv exNullString [exColumnName] = Inr [HolderSkipColumn]"
    by code_simp
  have "case getOrCreate exEnv Map.empty exNullString of
          Inl f \<Rightarrow> False | Inr (p, c') \<Rightarrow> p = StructProvider exNullString 0 []"
    by code_simp
  then obtain c' where
    prov: "getOrCreate exEnv Map.empty exNullString = Inr (StructProvider exNullString 0 [], c')"
    by (auto split: sum.splits)
  have notsingle: "\<not> isSingleBasicType exEnv exNullString"
    by (simp add: exEnv_def exNullString_def isSmallestStructDecomposition_def)
  have goc: "getOrCreateSync exEnv exNoCache exNullString [exColumnName] =
      Inr (exStaleDef,
           \<lparr>scanDefinitionsMgr = [exNullString \<mapsto> [exStaleDef]], structProviderMgr = c'\<rparr>)"
    using suppliers prov notsingle
    by (simp add: getOrCreateSync_def find_def_def create_def createRowsMapper_def
          multiColumnMapper_def getOrCreateSync_provider_def exNoCache_def exStaleDef_def Let_def)
  have et: "elementType (TSlice exNullString) = Inr exNullString"
    by (simp add: elementType_def exNullString_def)
  show ?thesis
    by (simp add: exStaleCache_def Propagate_def et goc exRows_def split: prod.splits)
qed

text \<open>
  Claim C1, as stated, fails, in four ways.  A row whose cell does not scan into \<open>T\<close> ends
  the call with the scan error: here a NULL cell for the element type \<^verbatim>\<open>int\<close>, after one
  row that was appended.  For the scalar \<^verbatim>\<open>uint8\<close> the slice \<^verbatim>\<open>[]uint8\<close> of the destination is
  itself taken for the element type (a byte sequence), a whole byte sequence is scanned
  per row, and appending it to the \<^verbatim>\<open>[]uint8\<close> panics.  When the close at the end of the
  rows fails, the call returns that error.  And a scan plan compiled for a struct type
  before the type was registered as a smallest struct decomposition is reused after the
  registration: the type is then a scalar, the cell scans into it, yet the call appends
  the zero record and not the scanned value.
\<close>

theorem C1_counterexample:
  "isSingleBasicType exEnv (TBasic KInt)
   \<and> fst (Propagate exEnv exScanner exNoCache (TPtr (TSlice (TBasic KInt))) []
            (exRows [exColumn] [[CInt 1], [CNull]]))
       = Some (Err (RowsError ''sql: Scan error: unsupported conversion''))
   \<and> isSingleBasicType exEnv (TBasic KUint8)
   \<and> fst (Propagate exEnv exScanner exNoCache (TPtr (TSlice (TBasic KUint8))) []
            (exRows [exColumn] [[CBytes ''a'']]))
       = Some (Panic ''reflect.Set: value is not assignable to the element type'')
   \<and> fst (Propagate exEnv exScanner exNoCache (TPtr (TSlice (TBasic KInt))) []
            (exRowsCloseFails [exColumn] [[CInt 1]]))
       = Some (Err (RowsError ''close failed''))
   \<and> isSingleBasicType exLateEnv exNullString
   \<and> convertAssign exNullScanner exNullString (CString ''a'')
       = Inr (VStruct [VString ''a'', VBool True])
   \<and> fst (Propagate exLateEnv exNullScanner exStaleCache (TPtr (TSlice exNullString)) []
            (exRows [exColumnName] [[CString ''a'']])) = None
   \<and> fst (snd (snd (Propagate exLateEnv exNullScanner exStaleCache (TPtr (TSlice exNullString)) []
            (exRows [exColumnName] [[CString ''a'']]))))
       = [VStruct [VString [], VBool False]]"
proof -
  have null: "isSingleBasicType exEnv (TBasic KInt)
     \<and> fst (Propagate exEnv exScanner exNoCache (TPtr (TSlice (TBasic KInt))) []
            (exRows [exColumn] [[CInt 1], [CNull]]))
       = Some (Err (RowsError ''sql: Scan error: unsupported conversion''))"
    by (simp add: ex_defs run_defs)
  have bytes: "isSingleBasicType exEnv (TBasic KUint8)
     \<and> fst (Propagate exEnv exScanner exNoCache (TPtr (TSlice (TBasic KUint8))) []
            (exRows [exColumn] [[CBytes ''a'']]))
       = Some (Panic ''reflect.Set: value is not assignable to the element type'')"
    by (simp add: ex_defs run_defs)
  have close: "fst (Propagate exEnv exScanner exNoCache (TPtr (TSlice (TBasic KInt))) []
            (exRowsCloseFails [exColumn] [[CInt 1]]))
       = Some (Err (RowsError ''close failed''))"
    by (simp add: ex_defs run_defs exRowsCloseFails_def)
  have single: "isSingleBasicType exLateEnv exNullString"
    by (simp add: exLateEnv_def SmallestStructDecomposition_def exNullString_def
          isSmallestStructDecomposition_def)
  have scans: "convertAssign exNullScanner exNullString (CString ''a'')
       = Inr (VStruct [VString ''a'', VBool True])"
    by (simp add: exNullScanner_def exNullConvert_def exNullString_def)
  have et: "elementType (TSlice exNullString) = Inr exNullString"
    by (simp add: elementType_def exNullString_def)
  have hit: "getOrCreateSync exLateEnv exStaleCache exNullString [exColumnName]
               = Inr (exStaleDef, exStaleCache)"
    by (simp add: getOrCreateSync_def find_def_def exStaleCache_defs exStaleDef_def)
  have run: "runMapper exNullScanner (mapper exStaleDef) (TPtr (TSlice exNullString)) []
               (exRows [exColumnName] [[CString ''a'']])
             = (None, [VStruct [VString [], VBool False]],
                (exRows [exColumnName] [])\<lparr>closed := True\<rparr>)"
    by (simp add: exStaleDef_def runMultiColumnMapper_def multiColumnLoop.simps Next_def
          rowsErr_def mapRow_def unwrapPtrStructValue_def inject_def exNullScanner_def exRows_def
          exNullString_def)
  have stale: "Propagate exLateEnv exNullScanner exStaleCache (TPtr (TSlice exNullString)) []
            (exRows [exColumnName] [[CString ''a'']])
        = (None, exStaleCache, [VStruct [VString [], VBool False]],
           (exRows [exColumnName] [])\<lparr>closed := True\<rparr>)"
    using et hit run
    by (simp add: Propagate_def columnTypesResult_exRows)
  from null bytes close single scans stale show ?thesis by simp
qed

lemma find_def_cached:
  "find_def mgr t cols = Some d \<Longrightarrow> d \<in> set (cachedDefs mgr t)"
  by (auto simp: find_def_def cachedDefs_def find_loop_eq find_Some_iff split: option.splits)

lemma elementType_loop_single:
  "isSingleBasicType e T \<Longrightarrow> elementType_loop D T = Inr T"
  by (cases T) auto

lemma elementType_single:
  "isSingleBasicType e T \<Longrightarrow> T \<noteq> TBasic KUint8 \<Longrightarrow> elementType (TSlice T) = Inr T"
  by (simp add: elementType_def elementType_loop_single)

lemma getOrCreateSync_single:
  assumes "isSingleBasicType e T" and "plansSingle e mgr"
  shows "\<exists>d mgr'. getOrCreateSync e mgr T cols = Inr (d, mgr') \<and> mapper d = SingleColumnMapper T"
proof (cases "find_def mgr T cols")
  case None
  with assms(1) show ?thesis
    by (simp add: getOrCreateSync_def create_def createRowsMapper_def Let_def)
next
  case (Some d)
  from find_def_cached [OF Some] assms have "mapper d = SingleColumnMapper T"
    by (simp add: plansSingle_def)
  with Some show ?thesis
    by (simp add: getOrCreateSync_def)
qed

text \<open>
  The condition on the cache is one the code establishes and keeps.  It holds of the
  empty cache; a compilation under the configuration \<open>e\<close> keeps it, and so does every
  \<^verbatim>\<open>Propagate\<close> call under \<open>e\<close>, whatever its destination, stream and outcome; and it
  carries over to another configuration \<open>e'\<close> as long as every type that is a scalar
  under \<open>e'\<close> was one under \<open>e\<close> or has no plan cached (the strictness flags do not matter).
\<close>

lemma plansSingle_empty:
  "plansSingle e \<lparr>scanDefinitionsMgr = Map.empty, structProviderMgr = c\<rparr>"
  by (simp add: plansSingle_def cachedDefs_def)

lemma create_plansSingle:
  assumes "plansSingle e mgr" and "create e mgr t cols = Inr (d, mgr')"
  shows "plansSingle e mgr'"
proof -
  from assms(2) obtain m c' where
    m: "createRowsMapper e (structProviderMgr mgr) t cols = Inr (m, c')"
    and d: "d = \<lparr>columnTypes = cols, mapper = m\<rparr>"
    and mgr': "mgr' = \<lparr>scanDefinitionsMgr = (scanDefinitionsMgr mgr)(t \<mapsto> cachedDefs mgr t @ [d]),
                       structProviderMgr = c'\<rparr>"
    by (auto simp: create_def Let_def cachedDefs_def split: sum.splits)
  have new: "isSingleBasicType e t \<Longrightarrow> mapper d = SingleColumnMapper t"
    using m d by (simp add: createRowsMapper_def)
  have defs: "cachedDefs mgr' u = (if u = t then cachedDefs mgr t @ [d] else cachedDefs mgr u)" for u
    by (simp add: mgr' cachedDefs_def)
  show ?thesis
    unfolding plansSingle_def
  proof (intro allI impI)
    fix u x assume x: "x \<in> set (cachedDefs mgr' u)" and u: "isSingleBasicType e u"
    show "mapper x = SingleColumnMapper u"
    proof (cases "u = t \<and> x = d")
      case True
      with new u show ?thesis by simp
    next
      case False
      with x defs [of u] have "x \<in> set (cachedDefs mgr u)"
        by (auto split: if_splits)
      with assms(1) u show ?thesis by (simp add: plansSingle_def)
    qed
  qed
qed

lemma getOrCreateSync_plansSingle:
  assumes "plansSingle e mgr" and "getOrCreateSync e mgr t cols = Inr (d, mgr')"
  shows "plansSingle e mgr'"
proof (cases "find_def mgr t cols")
  case None
  with assms(2) have "create e mgr t cols = Inr (d, mgr')"
    by (simp add: getOrCreateSync_def)
  from create_plansSingle [OF assms(1) this] show ?thesis .
next
  case (Some d')
  with assms show ?thesis by (simp add: getOrCreateSync_def)
qed

lemma Propagate_plansSingle:
  assumes "plansSingle e mgr" and "Propagate e sc mgr holderType elems r = (res, mgr', elems', r')"
  shows "plansSingle e mgr'"
proof -
  have "mgr' = mgr \<or> (\<exists>t cols d. getOrCreateSync e mgr t cols = Inr (d, mgr'))"
    using assms(2)
    by (auto simp: Propagate_def split: sum.splits gotype.splits prod.splits)
  with assms(1) getOrCreateSync_plansSingle show ?thesis by blast
qed

lemma plansSingle_reconfigure:
  assumes "plansSingle e mgr"
    and "\<forall>t. isSingleBasicType e' t \<longrightarrow> isSingleBasicType e t \<or> cachedDefs mgr t = []"
  shows "plansSingle e' mgr"
  unfolding plansSingle_def
proof (intro allI impI)
  fix t d assume d: "d \<in> set (cachedDefs mgr t)" and t: "isSingleBasicType e' t"
  with assms(2) have "isSingleBasicType e t" by fastforce
  with assms(1) d show "mapper d = SingleColumnMapper t" by (simp add: plansSingle_def)
qed

lemma singleColumnLoop_all_scanned:
  assumes "\<forall>c\<in>set cells. \<exists>v. convertAssign sc T c = Inr v"
    and "\<not> closed r" and "pending r = map (\<lambda>c. [c]) cells"
  shows "singleColumnLoop sc T T elems r =
           (map_option Err (case streamErr r of Some err \<Rightarrow> Some err | None \<Rightarrow> closeErr r),
            elems @ map (\<lambda>c. projr (convertAssign sc T c)) cells,
            r\<lparr>pending := [], closed := True,
              lasterr := (case streamErr r of Some err \<Rightarrow> Some err | None \<Rightarrow> closeErr r)\<rparr>)"
  using assms
proof (induction cells arbitrary: elems r)
  case Nil
  then show ?case
    by (subst singleColumnLoop.simps)
       (simp add: Next_def rowsErr_def Close_def split: option.splits)
next
  case (Cons c cells)
  from Cons.prems(1) obtain v where v: "convertAssign sc T c = Inr v" by auto
  have nxt: "Next r = (Some [c], r\<lparr>pending := map (\<lambda>c. [c]) cells\<rparr>)"
    using Cons.prems(2,3) by (simp add: Next_def)
  have "singleColumnLoop sc T T elems r =
          singleColumnLoop sc T T (elems @ [v]) (r\<lparr>pending := map (\<lambda>c. [c]) cells\<rparr>)"
    by (subst singleColumnLoop.simps) (simp add: nxt scanSingle_def v inject_def)
  also have "\<dots> = (map_option Err (case streamErr r of Some err \<Rightarrow> Some err | None \<Rightarrow> closeErr r),
                    (elems @ [v]) @ map (\<lambda>c. projr (convertAssign sc T c)) cells,
                    r\<lparr>pending := [], closed := True,
                      lasterr := (case streamErr r of Some err \<Rightarrow> Some err | None \<Rightarrow> closeErr r)\<rparr>)"
    using Cons.prems Cons.IH [of "r\<lparr>pending := map (\<lambda>c. [c]) cells\<rparr>" "elems @ [v]"]
    by (simp cong: option.case_cong)
  finally show ?case by (simp add: v)
qed

text \<open>
  Claim C1, amended: let \<open>T\<close> be a single basic type other than \<^verbatim>\<open>uint8\<close>, let every scan
  plan cached for a type that is a scalar under the present configuration be the
  single-column plan of that type, and let the row stream be open, hold single-column
  rows whose cells all scan into \<open>T\<close>, end without a stream error and close without an
  error.  Then \<^verbatim>\<open>Propagate\<close> into \<^verbatim>\<open>*[]T\<close> returns nil, leaves in the destination its former
  elements followed by the scanned values in row order, leaves the stream closed, and
  leaves a cache that meets the same condition.  When \<open>T\<close> is a pointer type, a NULL cell
  gives the nil pointer and any other cell a pointer to the value scanned into the
  pointee type.
\<close>

theorem C1_scalar_rows:
  assumes "isSingleBasicType e T" and "T \<noteq> TBasic KUint8" and "plansSingle e mgr"
    and "columnTypesResult r = Inr cols" and "\<not> closed r"
    and "streamErr r = None" and "closeErr r = None"
    and "pending r = map (\<lambda>c. [c]) cells"
    and "\<forall>c\<in>set cells. \<exists>v. convertAssign sc T c = Inr v"
  shows "(\<exists>mgr'. Propagate e sc mgr (TPtr (TSlice T)) elems r =
            (None, mgr', elems @ map (\<lambda>c. projr (convertAssign sc T c)) cells,
             r\<lparr>pending := [], closed := True, lasterr := None\<rparr>)
            \<and> plansSingle e mgr')
         \<and> (\<forall>U. T = TPtr U \<longrightarrow>
               map (\<lambda>c. projr (convertAssign sc T c)) cells =
               map (\<lambda>c. if c = CNull then VNil else VPtr (projr (convertAssign sc U c))) cells)"
proof (intro conjI allI impI)
  from getOrCreateSync_single [OF assms(1,3)] obtain d mgr' where
    goc: "getOrCreateSync e mgr T cols = Inr (d, mgr')" and d: "mapper d = SingleColumnMapper T"
    by blast
  have "Propagate e sc mgr (TPtr (TSlice T)) elems r =
          (None, mgr', elems @ map (\<lambda>c. projr (convertAssign sc T c)) cells,
           r\<lparr>pending := [], closed := True, lasterr := None\<rparr>)"
    using assms(4,6,7) elementType_single [OF assms(1,2)] goc d
      singleColumnLoop_all_scanned [OF assms(9,5,8), of elems]
    by (simp add: Propagate_def singleColumnMapper_def)
  moreover have "plansSingle e mgr'"
    using getOrCreateSync_plansSingle [OF assms(3) goc] .
  ultimately show "\<exists>mgr'. Propagate e sc mgr (TPtr (TSlice T)) elems r =
            (None, mgr', elems @ map (\<lambda>c. projr (convertAssign sc T c)) cells,
             r\<lparr>pending := [], closed := True, lasterr := None\<rparr>)
            \<and> plansSingle e mgr'" by blast
next
  fix U assume T: "T = TPtr U"
  show "map (\<lambda>c. projr (convertAssign sc T c)) cells =
        map (\<lambda>c. if c = CNull then VNil else VPtr (projr (convertAssign sc U c))) cells"
  proof (rule map_cong [OF refl])
    fix c assume "c \<in> set cells"
    with assms(9) T obtain v where "convertAssign sc (TPtr U) c = Inr v" by auto
    then show "projr (convertAssign sc T c) =
        (if c = CNull then VNil else VPtr (projr (convertAssign sc U c)))"
      unfolding T by (auto split: if_splits sum.splits)
  qed
qed

text \<open>
  Witness for C1: the test-suite scenario, \<^verbatim>\<open>[]*string\<close> and the rows (NULL), ("b"), on
  the empty cache.
\<close>

theorem C1_scalar_rows_witness:
  "\<exists>mgr'. Propagate exEnv exScanner exNoCache (TPtr (TSlice (TPtr (TBasic KString)))) []
            (exRows [exColumn] [[CNull], [CString ''b'']]) =
          (None, mgr', [VNil, VPtr (VString ''b'')], (exRows [exColumn] [])\<lparr>closed := True\<rparr>)
          \<and> plansSingle exEnv mgr'"
proof -
  have single: "isSingleBasicType exEnv (TPtr (TBasic KString))" by simp
  have plans: "plansSingle exEnv exNoCache"
    by (simp add: plansSingle_def cachedDefs_def exNoCache_def)
  have cols: "columnTypesResult (exRows [exColumn] [[CNull], [CString ''b'']]) = Inr [exColumn]"
    and opened: "\<not> closed (exRows [exColumn] [[CNull], [CString ''b'']])"
    and noerr: "streamErr (exRows [exColumn] [[CNull], [CString ''b'']]) = None"
    and noclose: "closeErr (exRows [exColumn] [[CNull], [CString ''b'']]) = None"
    and rows: "pending (exRows [exColumn] [[CNull], [CString ''b'']]) = map (\<lambda>c. [c]) [CNull, CString ''b'']"
    by (simp_all add: exRows_def)
  have scans: "\<forall>c\<in>set [CNull, CString ''b'']. \<exists>v. convertAssign exScanner (TPtr (TBasic KString)) c = Inr v"
    by (simp add: exScanner_def exConvert_def)
  from C1_scalar_rows [OF single _ plans cols opened noerr noclose rows scans, of "[]"]
  show ?thesis
    by (simp add: exScanner_def exConvert_def exRows_def)
qed

section \<open>Record destinations\<close>

lemma multiColumnLoop_scan_error:
  assumes "provide p = Inr (inst, a)" and "unwrapPtrStructValue inst = Inr (u, l)"
    and "supplyAll hs u = Inr holders"
    and "\<forall>row\<in>set pre. \<exists>v. scanFields sc row holders inst = Inr v"
    and "scanFields sc bad holders inst = Inl err"
    and "\<not> closed r" and "pending r = pre @ bad # post"
  shows "multiColumnLoop sc hs p (providedType p) elems r =
           (Some (Err err), elems @ map (\<lambda>row. projr (scanFields sc row holders inst)) pre,
            r\<lparr>pending := post\<rparr>)"
  using assms(4,6,7)
proof (induction pre arbitrary: elems r)
  case Nil
  then have nxt: "Next r = (Some bad, r\<lparr>pending := post\<rparr>)"
    by (simp add: Next_def)
  have "mapRow sc hs p bad = Inl (Err err)"
    by (simp add: mapRow_def assms(1,2,3,5))
  then show ?case
    by (subst multiColumnLoop.simps) (simp add: nxt)
next
  case (Cons row pre)
  then obtain v where v: "scanFields sc row holders inst = Inr v" by auto
  have nxt: "Next r = (Some row, r\<lparr>pending := pre @ bad # post\<rparr>)"
    using Cons.prems by (simp add: Next_def)
  have row: "mapRow sc hs p row = Inr v"
    by (simp add: mapRow_def assms(1,2,3) v)
  have "multiColumnLoop sc hs p (providedType p) elems r =
          multiColumnLoop sc hs p (providedType p) (elems @ [v]) (r\<lparr>pending := pre @ bad # post\<rparr>)"
    by (subst multiColumnLoop.simps) (simp add: nxt row inject_def)
  also have "\<dots> = (Some (Err err),
       (elems @ [v]) @ map (\<lambda>row. projr (scanFields sc row holders inst)) pre,
       r\<lparr>pending := pre @ bad # post\<rparr>\<lparr>pending := post\<rparr>)"
    using Cons.prems by (intro Cons.IH) simp_all
  finally show ?case by (simp add: v)
qed

text \<open>
  Claim C7: in a \<^verbatim>\<open>Propagate\<close> call that maps records (the scan definition holds a
  multi-column mapper), when the rows before some row scan and that row's scan fails,
  the call returns that scan error at once: the remaining rows are left in the stream,
  and the destination holds its former elements followed by the instances of the rows
  scanned before the failure.
\<close>

theorem C7_scan_error_keeps_rows:
  assumes "columnTypesResult r = Inr cols"
    and "elementType (TSlice t) = Inr t"
    and "getOrCreateSync e mgr t cols = Inr (d, mgr')"
    and "mapper d = MultiColumnMapper hs p" and "providedType p = t"
    and "provide p = Inr (inst, a)" and "unwrapPtrStructValue inst = Inr (u, l)"
    and "supplyAll hs u = Inr holders"
    and "\<forall>row\<in>set pre. \<exists>v. scanFields sc row holders inst = Inr v"
    and "scanFields sc bad holders inst = Inl err"
    and "\<not> closed r" and "pending r = pre @ bad # post"
  shows "Propagate e sc mgr (TPtr (TSlice t)) elems r =
           (Some (Err err), mgr',
            elems @ map (\<lambda>row. projr (scanFields sc row holders inst)) pre,
            r\<lparr>pending := post\<rparr>)"
  using assms(1,2,3,4) multiColumnLoop_scan_error [OF assms(6,7,8,9,10,11,12), where elems = elems]
  by (simp add: Propagate_def runMultiColumnMapper_def assms(5))

text \<open>
  Witness for C7: three rows into \<^verbatim>\<open>[]*refStruct\<close>; the second row fails to scan, the
  first stays in the destination and the third stays in the stream.
\<close>

theorem C7_scan_error_keeps_rows_witness:
  "\<exists>mgr'. Propagate exEnv exScanner exNoCache (TPtr (TSlice (TPtr exRef))) []
            (exRows [exColumn, exColumnTime] [[CInt 1, CNull], [CBool True, CNull], [CInt 3, CNull]]) =
          (Some (Err (RowsError ''sql: Scan error: unsupported conversion'')), mgr',
           [VPtr (VStruct [VInt 1, VNil])],
           exRows [exColumn, exColumnTime] [[CInt 3, CNull]])"
proof -
  let ?r = "exRows [exColumn, exColumnTime] [[CInt 1, CNull], [CBool True, CNull], [CInt 3, CNull]]"
  let ?hs = "[HolderByFieldIndexPath [0], HolderByFieldIndexPath [1]]"
  let ?inst = "VPtr (VStruct [VInt 0, VNil])"
  have suppliers: "createHolderSuppliers exEnv (TPtr exRef) [exColumn, exColumnTime] = Inr ?hs"
    by code_simp
  have "case getOrCreate exEnv Map.empty (TPtr exRef) of
          Inl f \<Rightarrow> False | Inr (p, c') \<Rightarrow> p = exRefProvider"
    by code_simp
  then obtain c' where prov: "getOrCreate exEnv Map.empty (TPtr exRef) = Inr (exRefProvider, c')"
    by (auto split: sum.splits)
  have notsingle: "\<not> isSingleBasicType exEnv (TPtr exRef)"
    by (simp add: exEnv_def exRef_def isSmallestStructDecomposition_def)
  have goc: "getOrCreateSync exEnv exNoCache (TPtr exRef) [exColumn, exColumnTime] =
      Inr (\<lparr>columnTypes = [exColumn, exColumnTime], mapper = MultiColumnMapper ?hs exRefProvider\<rparr>,
           \<lparr>scanDefinitionsMgr = [TPtr exRef \<mapsto>
              [\<lparr>columnTypes = [exColumn, exColumnTime], mapper = MultiColumnMapper ?hs exRefProvider\<rparr>]],
            structProviderMgr = c'\<rparr>)"
    using suppliers prov notsingle
    by (simp add: getOrCreateSync_def find_def_def create_def createRowsMapper_def
          multiColumnMapper_def getOrCreateSync_provider_def exNoCache_def Let_def)
  have cols: "columnTypesResult ?r = Inr [exColumn, exColumnTime]"
    and opened: "\<not> closed ?r"
    and rows: "pending ?r = [[CInt 1, CNull]] @ [CBool True, CNull] # [[CInt 3, CNull]]"
    by (simp_all add: exRows_def)
  have et: "elementType (TSlice (TPtr exRef)) = Inr (TPtr exRef)"
    by (simp add: elementType_def)
  have mp: "mapper \<lparr>columnTypes = [exColumn, exColumnTime],
                    mapper = MultiColumnMapper ?hs exRefProvider\<rparr> = MultiColumnMapper ?hs exRefProvider"
    by simp
  have pt: "providedType exRefProvider = TPtr exRef"
    by (simp add: exRefProvider_def)
  have inst: "provide exRefProvider = Inr (?inst, False)"
    by (simp add: exRefProvider_def exRef_def)
  have un: "unwrapPtrStructValue ?inst = Inr (VStruct [VInt 0, VNil], 1)"
    by (simp add: unwrapPtrStructValue_def)
  have holders: "supplyAll ?hs (VStruct [VInt 0, VNil]) = Inr [FieldAddr [0], FieldAddr [1]]"
    by (simp add: FieldByIndex_def)
  have good: "\<forall>row\<in>set [[CInt 1, CNull]].
      \<exists>v. scanFields exScanner row [FieldAddr [0], FieldAddr [1]] ?inst = Inr v"
    by (simp add: exScanner_def)
  have bad: "scanFields exScanner [CBool True, CNull] [FieldAddr [0], FieldAddr [1]] ?inst
               = Inl (RowsError ''sql: Scan error: unsupported conversion'')"
    by (simp add: exScanner_def)
  from C7_scan_error_keeps_rows [OF cols et goc mp pt inst un holders good bad opened rows, of "[]"]
  show ?thesis
    by (simp add: exScanner_def exRows_def)
qed

section \<open>Releasing the row stream\<close>

text \<open>
  Claim C8 does not hold of the code: when a row fails to scan, \<^verbatim>\<open>Propagate\<close> returns
  the error and the row stream is still open.  Here the second row of a query into
  \<^verbatim>\<open>[]int\<close> holds a string that is no number.
\<close>

theorem C8_scan_error_leaves_rows_open:
  "fst (Propagate exEnv exScanner exNoCache (TPtr (TSlice (TBasic KInt))) []
          (exRows [exColumn] [[CInt 1], [CString ''abc'']]))
     = Some (Err (RowsError ''sql: Scan error: unsupported conversion''))
   \<and> \<not> closed (snd (snd (snd (Propagate exEnv exScanner exNoCache (TPtr (TSlice (TBasic KInt))) []
          (exRows [exColumn] [[CInt 1], [CString ''abc'']])))))"
  by (simp add: ex_defs run_defs)

section \<open>A row stream without rows\<close>







lemma exStrict_not_single: "\<not> isSingleBasicType exStrictEnv exRef"
  by (simp add: exStrictEnv_def StrictColumnAmountCheck_def exEnv_def exRef_def
        isSmallestStructDecomposition_def)






section \<open>The strict amount check\<close>

lemma holderSuppliersLoop_strict:
  assumes "\<exists>c\<in>set cols. tbl (ToLower (name c)) = None"
  shows "\<exists>err. holderSuppliersLoop True ctChk tbl h cols acc = Inl err \<and> compileError err
           \<and> (\<not> ctChk \<longrightarrow> (\<exists>c\<in>set cols. err = NoMappingForColumn (name c)))"
  using assms
proof (induction cols arbitrary: acc)
  case Nil
  then show ?case by simp
next
  case (Cons c cols)
  show ?case
  proof (cases "tbl (ToLower (name c))")
    case None
    then show ?thesis by (simp add: compileError_def)
  next
    case (Some accessor)
    with Cons.prems have "\<exists>c\<in>set cols. tbl (ToLower (name c)) = None" by auto
    from Cons.IH [OF this] Some show ?thesis
      by (auto simp: compileError_def)
  qed
qed

lemma exCached_defs: "scanDefinitionsMgr exCached = [exRef \<mapsto> [exSkipDef]]"
proof -
  have suppliers: "createHolderSuppliers exEnv exRef [exColumnStamp] = Inr [HolderSkipColumn]"
    by code_simp
  have "case getOrCreate exEnv Map.empty exRef of
          Inl f \<Rightarrow> False | Inr (p, c') \<Rightarrow> p = StructProvider exRef 0 []"
    by code_simp
  then obtain c' where prov: "getOrCreate exEnv Map.empty exRef = Inr (StructProvider exRef 0 [], c')"
    by (auto split: sum.splits)
  have notsingle: "\<not> isSingleBasicType exEnv exRef"
    by (simp add: exEnv_def exRef_def isSmallestStructDecomposition_def)
  have goc: "getOrCreateSync exEnv exNoCache exRef [exColumnStamp] =
      Inr (exSkipDef, \<lparr>scanDefinitionsMgr = [exRef \<mapsto> [exSkipDef]], structProviderMgr = c'\<rparr>)"
    using suppliers prov notsingle
    by (simp add: getOrCreateSync_def find_def_def create_def createRowsMapper_def
          multiColumnMapper_def getOrCreateSync_provider_def exNoCache_def exSkipDef_def Let_def)
  have et: "elementType (TSlice exRef) = Inr exRef"
    by (simp add: elementType_def exRef_def)
  show ?thesis
    by (simp add: exCached_def Propagate_def et goc exRows_def split: prod.splits)
qed

text \<open>
  Claim C6, as stated, fails: the scan definition compiled by an earlier call, while the
  check was off, is reused after the check has been switched on.  The column matches no
  field, and the call returns nil and appends the row's instance.
\<close>

theorem C6_counterexample:
  "columnAmountCheck exStrictEnv
   \<and> ToLower (name exColumnStamp) \<notin> fst ` set (registrations 0 exRef)
   \<and> fst (Propagate exStrictEnv exScanner exCached (TPtr (TSlice exRef)) []
            (exRows [exColumnStamp] [[CInt 7]])) = None
   \<and> fst (snd (snd (Propagate exStrictEnv exScanner exCached (TPtr (TSlice exRef)) []
            (exRows [exColumnStamp] [[CInt 7]])))) = [VStruct [VInt 0, VNil]]"
proof -
  have strict: "columnAmountCheck exStrictEnv"
    by (simp add: exStrictEnv_def StrictColumnAmountCheck_def exEnv_def)
  have unmatched: "ToLower (name exColumnStamp) \<notin> fst ` set (registrations 0 exRef)"
    by code_simp
  have et: "elementType (TSlice exRef) = Inr exRef"
    by (simp add: elementType_def exRef_def)
  have hit: "getOrCreateSync exStrictEnv exCached exRef [exColumnStamp] = Inr (exSkipDef, exCached)"
    by (simp add: getOrCreateSync_def find_def_def exCached_defs exSkipDef_def)
  have run: "runMapper exScanner (mapper exSkipDef) (TPtr (TSlice exRef)) []
               (exRows [exColumnStamp] [[CInt 7]])
             = (None, [VStruct [VInt 0, VNil]], (exRows [exColumnStamp] [])\<lparr>closed := True\<rparr>)"
    by (simp add: exSkipDef_def runMultiColumnMapper_def multiColumnLoop.simps Next_def
          rowsErr_def mapRow_def unwrapPtrStructValue_def inject_def exScanner_def exRows_def
          exRef_def)
  have "Propagate exStrictEnv exScanner exCached (TPtr (TSlice exRef)) []
            (exRows [exColumnStamp] [[CInt 7]])
        = (None, exCached, [VStruct [VInt 0, VNil]], (exRows [exColumnStamp] [])\<lparr>closed := True\<rparr>)"
    using et hit run
    by (simp add: Propagate_def columnTypesResult_exRows)
  with strict unmatched show ?thesis by simp
qed

text \<open>
  Claim C6, amended: with the strict amount check on, a \<^verbatim>\<open>Propagate\<close> call into records
  (an element type rooted at a struct that is not a single basic type) for which no scan
  definition with these columns is cached, and among whose columns one matches no field,
  returns an error of plan compilation and leaves the destination, the caches and the
  row stream as they were.  The error is the missing mapping of such a column unless the
  strict type check is on as well and rejects an earlier column.
\<close>

theorem C6_strict_amount:
  assumes "columnAmountCheck e"
    and "columnTypesResult r = Inr cols"
    and "elementType (TSlice t) = Inr het"
    and "\<not> isSingleBasicType e het" and "structRooted het"
    and "find_def mgr het cols = None"
    and "\<exists>c\<in>set cols. ToLower (name c) \<notin> fst ` set (registrations 0 het)"
  shows "\<exists>err. Propagate e sc mgr (TPtr (TSlice t)) elems r = (Some (Err err), mgr, elems, r)
           \<and> compileError err
           \<and> (\<not> columnTypeCheck e \<longrightarrow> (\<exists>c\<in>set cols. err = NoMappingForColumn (name c)))"
proof -
  from createFieldsAccessors_view [OF assms(5)] obtain tbl h where
    tbl: "createFieldsAccessors e het = Inr (tbl, h)"
    and view: "viewOf tbl = foldl register Map.empty (registrations 0 het)"
    by blast
  from assms(7) obtain c where c: "c \<in> set cols"
    "ToLower (name c) \<notin> fst ` set (registrations 0 het)" by blast
  from c(2) have "viewOf tbl (ToLower (name c)) = None"
    unfolding view by (rule foldl_register_none)
  with c(1) have "\<exists>c\<in>set cols. tbl (ToLower (name c)) = None"
    by (auto simp: viewOf_None)
  from holderSuppliersLoop_strict [OF this, of "columnTypeCheck e" h "[]"]
  obtain err where loop: "holderSuppliersLoop True (columnTypeCheck e) tbl h cols [] = Inl err"
    and err: "compileError err"
      "\<not> columnTypeCheck e \<longrightarrow> (\<exists>c\<in>set cols. err = NoMappingForColumn (name c))"
    by blast
  have "createHolderSuppliers e het cols = Inl (Err err)"
    using assms(1) loop tbl
    by (simp add: createHolderSuppliers_def)
  then have "getOrCreateSync e mgr het cols = Inl (Err err)"
    using assms(4,6)
    by (simp add: getOrCreateSync_def create_def createRowsMapper_def multiColumnMapper_def)
  then have "Propagate e sc mgr (TPtr (TSlice t)) elems r = (Some (Err err), mgr, elems, r)"
    using assms(2,3) by (simp add: Propagate_def)
  with err show ?thesis by blast
qed

text \<open>
  Witness for C6: no cache, the check on, one row; the column
  \<^verbatim>\<open>CreationTimestamp\<close> matches no key of \<^verbatim>\<open>refStruct\<close>.
\<close>

theorem C6_strict_amount_witness:
  "Propagate exStrictEnv exScanner exNoCache (TPtr (TSlice exRef)) []
       (exRows [exColumnStamp] [[CInt 7]])
     = (Some (Err (NoMappingForColumn ''CreationTimestamp'')), exNoCache, [],
        exRows [exColumnStamp] [[CInt 7]])"
proof -
  have strict: "columnAmountCheck exStrictEnv" and lenient: "\<not> columnTypeCheck exStrictEnv"
    by (simp_all add: exStrictEnv_def StrictColumnAmountCheck_def exEnv_def)
  have cols: "columnTypesResult (exRows [exColumnStamp] [[CInt 7]]) = Inr [exColumnStamp]"
    by (simp add: exRows_def)
  have et: "elementType (TSlice exRef) = Inr exRef"
    by (simp add: elementType_def exRef_def)
  have rooted: "structRooted exRef"
    by (simp add: exRef_def)
  have miss: "find_def exNoCache exRef [exColumnStamp] = None"
    by (simp add: find_def_def exNoCache_def)
  have unmatched: "\<exists>c\<in>set [exColumnStamp]. ToLower (name c) \<notin> fst ` set (registrations 0 exRef)"
    by code_simp
  have nm: "name exColumnStamp = ''CreationTimestamp''"
    by (simp add: exColumnStamp_def)
  from C6_strict_amount [OF strict cols et exStrict_not_single rooted miss unmatched,
      of exScanner "[]"] lenient nm
  show ?thesis by auto
qed

section \<open>Concurrent first use\<close>




lemma moveTo_simps [simp]:
  "sdm (moveTo i p s) = sdm s" "writer (moveTo i p s) = writer s"
  "readers (moveTo i p s) = readers s"
  "length (callers (moveTo i p s)) = length (callers s)"
  "i < length (callers s) \<Longrightarrow> at (callers (moveTo i p s) ! i) = p"
  "j \<noteq> i \<Longrightarrow> callers (moveTo i p s) ! j = callers s ! j"
  "i < length (callers s) \<Longrightarrow> wantedType (callers (moveTo i p s) ! i) = wantedType (callers s ! i)"
  "i < length (callers s) \<Longrightarrow> wantedColumns (callers (moveTo i p s) ! i) = wantedColumns (callers s ! i)"
  by (simp_all add: moveTo_def)










end
